theory Spec2Isabelle
  imports Main
begin

section \<open>JavaScript values\<close>

text \<open>
  Request bodies are parsed JSON (or multipart form fields), so a field of a request is a
  JavaScript value of any scalar type, or is missing. Numbers are modelled as integers
  (no fractions, no NaN); nested objects and arrays as field values are not modelled.
\<close>

datatype jsval = JUndefined | JNull | JBool bool | JNum int | JStr string

text \<open>Truthiness, as \<^verbatim>\<open>if (v)\<close>, \<^verbatim>\<open>!v\<close>, \<^verbatim>\<open>a || b\<close> and \<^verbatim>\<open>a && b\<close> test it.\<close>

fun truthy :: "jsval \<Rightarrow> bool" where
  "truthy JUndefined = False"
| "truthy JNull = False"
| "truthy (JBool b) = b"
| "truthy (JNum n) = (n \<noteq> 0)"
| "truthy (JStr s) = (s \<noteq> [])"

text \<open>\<^verbatim>\<open>a || b\<close>\<close>

definition js_or :: "jsval \<Rightarrow> jsval \<Rightarrow> jsval" where
  "js_or a b = (if truthy a then a else b)"

text \<open>Decimal digits of a natural number, as \<^verbatim>\<open>String(n)\<close> prints them.\<close>

function digits :: "nat \<Rightarrow> string" where
  "digits n = (if n < 10 then [''0123456789'' ! n] else digits (n div 10) @ [''0123456789'' ! (n mod 10)])"
  by pat_completeness auto
termination
  by (relation "measure id") auto

declare digits.simps [simp del]

text \<open>
  \<^verbatim>\<open>String(v)\<close>: the conversion a template literal \<^verbatim>\<open>`${v}`\<close>, a property key
  \<^verbatim>\<open>obj[v]\<close> and a query filter \<^verbatim>\<open>.eq(column, v)\<close> apply to a value.
\<close>

fun to_string :: "jsval \<Rightarrow> string" where
  "to_string JUndefined = ''undefined''"
| "to_string JNull = ''null''"
| "to_string (JBool b) = (if b then ''true'' else ''false'')"
| "to_string (JNum n) = (if n < 0 then CHR ''-'' # digits (nat (- n)) else digits (nat n))"
| "to_string (JStr s) = s"

text \<open>
  The text a column of type TEXT holds after a write of the value: SQL NULL for
  \<^verbatim>\<open>null\<close> and for a key that \<^verbatim>\<open>JSON.stringify\<close> drops (\<^verbatim>\<open>undefined\<close>).
\<close>

fun column_text :: "jsval \<Rightarrow> string option" where
  "column_text JUndefined = None"
| "column_text JNull = None"
| "column_text v = Some (to_string v)"

text \<open>The value a nullable TEXT column reads as.\<close>

fun js_of_column :: "string option \<Rightarrow> jsval" where
  "js_of_column None = JNull"
| "js_of_column (Some s) = JStr s"


section \<open>Requests, rows and the persistence layer\<close>

text \<open>
  A list-valued request field arrives as an array (JSON body), as the JSON text of an
  array (multipart form field), or not at all.
\<close>

datatype 'a js_list = Missing | JsonText string | JsArray "'a list"

text \<open>\<^verbatim>\<open>req.body\<close> of \<^verbatim>\<open>POST /api/companies\<close>.\<close>

record company_body =
  b_name :: jsval
  b_cuit :: jsval
  b_address :: jsval
  b_industry :: jsval

text \<open>
  A row of \<^verbatim>\<open>companies\<close>. The column \<^verbatim>\<open>user_id\<close> exists only before the
  migration "Update companies table for shared access".
\<close>

record company_row =
  c_id :: string
  c_name :: string
  c_cuit :: string
  c_address :: string
  c_industry :: string
  c_user_id :: "string option"

text \<open>One element of \<^verbatim>\<open>observations\<close> in a report request (an edit entry).\<close>

record entry =
  e_id :: jsval
  e_observation :: jsval
  e_riskLevel :: jsval
  e_imageUrl :: jsval
  e_newImage :: jsval
  e_tempId :: jsval

text \<open>An uploaded file, as multer hands it over.\<close>

record upload_file =
  f_fieldname :: string
  f_path :: string
  f_originalname :: string

text \<open>A row of \<^verbatim>\<open>observations\<close>.\<close>

record obs_row =
  o_id :: string
  o_report_id :: string
  o_observation :: string
  o_risk_level :: string
  o_image_url :: "string option"

text \<open>The object given to \<^verbatim>\<open>.update(...)\<close> on \<^verbatim>\<open>observations\<close>.\<close>

record obs_patch =
  p_observation :: jsval
  p_risk_level :: jsval
  p_image_url :: jsval

text \<open>
  A processed observation: the object given to \<^verbatim>\<open>.insert(...)\<close> on
  \<^verbatim>\<open>observations\<close>, or (with an \<^verbatim>\<open>id\<close> and no \<^verbatim>\<open>report_id\<close>) the object an
  update is built from. A key the object does not have reads \<^verbatim>\<open>undefined\<close>.
\<close>

record obs_object =
  n_id :: jsval
  n_report_id :: jsval
  n_observation :: jsval
  n_risk_level :: jsval
  n_image_url :: jsval

text \<open>A row of \<^verbatim>\<open>reports\<close>.\<close>

record report_row =
  rp_id :: string
  rp_company_id :: string
  rp_user_id :: string
  rp_date :: string
  rp_contact :: "string option"
  rp_description :: string
  rp_verification :: "string option"
  rp_recommendations :: "string option"
  rp_signature :: "string option"
  rp_visit_confirmation :: bool
  rp_status :: string

text \<open>The object \<^verbatim>\<open>newReport\<close> of \<^verbatim>\<open>createReport\<close>.\<close>

record new_report =
  nr_company_id :: jsval
  nr_user_id :: string
  nr_date :: jsval
  nr_contact :: jsval
  nr_description :: jsval
  nr_verification :: jsval
  nr_recommendations :: jsval
  nr_signature :: jsval
  nr_visit_confirmation :: bool
  nr_status :: jsval

text \<open>The object \<^verbatim>\<open>updates\<close> of \<^verbatim>\<open>updateReport\<close>: \<open>None\<close> is a key that was not set.\<close>

record report_updates =
  u_date :: "jsval option"
  u_contact :: "jsval option"
  u_description :: "jsval option"
  u_verification :: "jsval option"
  u_recommendations :: "jsval option"
  u_signature :: "jsval option"
  u_visit_confirmation :: "bool option"
  u_status :: "jsval option"

text \<open>The body of a create or update request on \<^verbatim>\<open>/api/reports\<close>.\<close>

record report_body =
  rb_companyId :: jsval
  rb_date :: jsval
  rb_contact :: jsval
  rb_description :: jsval
  rb_verification :: jsval
  rb_recommendations :: jsval
  rb_signature :: jsval
  rb_visitConfirmation :: jsval
  rb_status :: jsval
  rb_observations :: "entry js_list"
  rb_observationsToDelete :: "jsval js_list"

text \<open>The calls the handlers make on the database and on the image store.\<close>

datatype call =
    Companies_select_cuit string
  | Companies_select_id_user string string
  | Companies_insert company_body "string option"
  | Companies_delete string string
  | User_companies_insert string string
  | User_companies_delete string string
  | Reports_select string string
  | Reports_select_id string
  | Reports_insert new_report
  | Reports_update string string report_updates
  | Reports_delete string string
  | Observations_select string
  | Observations_update string string obs_patch
  | Observations_insert "obs_object list"
  | Observations_delete string string
  | Storage_upload string string
  | Storage_remove "string list"

text \<open>
  The errors a handler ends with: \<^verbatim>\<open>new ApiError(status, '...')\<close> with a literal
  message, \<^verbatim>\<open>new ApiError(status, error.message)\<close> with the message of the failed
  call, and any other exception (a failed upload, \<^verbatim>\<open>JSON.parse\<close>).
\<close>

datatype error = ApiError nat string | ApiBackendError nat | Exception

text \<open>
  The state of the hosted service and of the server's disk: the tables, whether the
  shared-access migration has run, every call made so far, oldest first, and the paths
  of the temporary files under \<^verbatim>\<open>uploads/\<close> that exist.
\<close>

record world =
  shared_access :: bool
  companies :: "company_row list"
  user_companies :: "(string \<times> string) list"
  reports :: "report_row list"
  observations :: "obs_row list"
  next_id :: nat
  oplog :: "call list"
  temp_files :: "string list"

text \<open>
  What the code cannot decide: whether a call fails for a reason outside the tables
  (network, column types, foreign keys, and the authorisation policies other than the
  one on reading companies), the identifiers and URLs the service generates, the clock,
  and the library functions \<^verbatim>\<open>JSON.parse\<close> and \<^verbatim>\<open>new URL\<close>
  (\<open>url_pathname\<close>: the \<^verbatim>\<open>pathname\<close> of the URL; \<open>storage_path\<close>: the last two
  segments of that path, joined as \<^verbatim>\<open>deleteImage\<close> joins them; both are \<open>None\<close>
  when the constructor throws). Failures, URLs and the clock are indexed by the number
  of calls made before, identifiers by the number generated before.
\<close>

record backend =
  fails :: "nat \<Rightarrow> call \<Rightarrow> bool"
  gen_id :: "nat \<Rightarrow> string"
  public_url :: "nat \<Rightarrow> string"
  now :: "nat \<Rightarrow> nat"
  parse_observations :: "string \<Rightarrow> entry list option"
  parse_ids :: "string \<Rightarrow> jsval list option"
  storage_path :: "string \<Rightarrow> string option"
  url_pathname :: "string \<Rightarrow> string option"

text \<open>Make a call: it is logged, and the backend says whether it went through.\<close>

definition attempt :: "backend \<Rightarrow> call \<Rightarrow> world \<Rightarrow> bool \<times> world" where
  "attempt b c w = (\<not> fails b (length (oplog w)) c, w\<lparr>oplog := oplog w @ [c]\<rparr>)"

text \<open>\<^verbatim>\<open>.single()\<close>: the row when exactly one matches, an error otherwise.\<close>

definition single :: "'a list \<Rightarrow> 'a option" where
  "single xs = (case xs of [x] \<Rightarrow> Some x | _ \<Rightarrow> None)"

section \<open>Companies: the handlers of the routes (controllers/companyController.js)\<close>

text \<open>
  Row-level security is enabled on \<^verbatim>\<open>companies\<close>, and a select returns only the rows
  its policy lets the acting user read: after the shared-access migration the companies
  the user is associated with (policy "Users can read companies they are associated
  with"), before it the companies of the user (policy "Users can read their own
  companies"). A row the user may not read is absent from the result; it is not an error.
\<close>

definition readable_companies :: "string \<Rightarrow> world \<Rightarrow> company_row list" where
  "readable_companies userId w =
    filter (\<lambda>c. if shared_access w then (userId, c_id c) \<in> set (user_companies w)
                else c_user_id c = Some userId) (companies w)"

text \<open>
  \<^verbatim>\<open>createCompany\<close>, the handler of \<^verbatim>\<open>POST /api/companies\<close>. Its lookup by
  \<^verbatim>\<open>cuit\<close> sees the readable rows only, and finding none is not an error (code
  PGRST116). The insert into \<^verbatim>\<open>companies\<close> is refused by the unique constraint on
  \<^verbatim>\<open>cuit\<close>, which counts every row (and, before the migration, by the missing
  \<^verbatim>\<open>user_id\<close>); the insert into \<^verbatim>\<open>user_companies\<close> by its primary key
  \<^verbatim>\<open>(user_id, company_id)\<close>. Whether a newly inserted company may be returned to
  a user who is not yet associated with it is left to \<open>fails\<close>.
\<close>

definition ctl_createCompany ::
  "backend \<Rightarrow> company_body \<Rightarrow> string \<Rightarrow> world \<Rightarrow> (error + company_row) \<times> world" where
  "ctl_createCompany b body userId w =
    (if \<not> truthy (b_name body) \<or> \<not> truthy (b_cuit body) \<or>
        \<not> truthy (b_address body) \<or> \<not> truthy (b_industry body)
     then (Inl (ApiError 400 ''Name, CUIT, address, and industry are required''), w)
     else
       let cuit = to_string (b_cuit body);
           (found, w1) = attempt b (Companies_select_cuit cuit) w
       in if \<not> found then (Inl (ApiBackendError 400), w1)
       else
         let (company, w3) =
           (case single (filter (\<lambda>c. c_cuit c = cuit) (readable_companies userId w1)) of
              Some existingCompany \<Rightarrow> (Inr existingCompany, w1)
            | None \<Rightarrow>
                let (created, w2) = attempt b (Companies_insert body None) w1;
                    newCompany = \<lparr>c_id = gen_id b (next_id w1),
                      c_name = to_string (b_name body), c_cuit = cuit,
                      c_address = to_string (b_address body),
                      c_industry = to_string (b_industry body), c_user_id = None\<rparr>
                in if \<not> created \<or> \<not> shared_access w2 \<or> cuit \<in> set (map c_cuit (companies w2))
                   then (Inl (ApiBackendError 400), w2)
                   else (Inr newCompany,
                          w2\<lparr>companies := companies w2 @ [newCompany], next_id := Suc (next_id w2)\<rparr>))
         in (case company of
              Inl e \<Rightarrow> (Inl e, w3)
            | Inr c \<Rightarrow>
                let (linked, w4) = attempt b (User_companies_insert userId (c_id c)) w3
                in if \<not> linked \<or> \<not> shared_access w4 \<or> (userId, c_id c) \<in> set (user_companies w4)
                   then (Inl (ApiBackendError 400), w4)
                   else (Inr c, w4\<lparr>user_companies := user_companies w4 @ [(userId, c_id c)]\<rparr>)))"

text \<open>
  \<^verbatim>\<open>removeCompanyAssociation\<close>, the handler of \<^verbatim>\<open>DELETE /api/companies/:id\<close>.
\<close>

definition ctl_removeCompanyAssociation ::
  "backend \<Rightarrow> string \<Rightarrow> string \<Rightarrow> world \<Rightarrow> (error + unit) \<times> world" where
  "ctl_removeCompanyAssociation b companyId userId w =
    (let (removed, w1) = attempt b (User_companies_delete companyId userId) w
     in if \<not> removed \<or> \<not> shared_access w1 then (Inl (ApiBackendError 400), w1)
        else (Inr (), w1\<lparr>user_companies :=
                filter (\<lambda>a. \<not> (snd a = companyId \<and> fst a = userId)) (user_companies w1)\<rparr>))"

section \<open>Writes to the tables\<close>

text \<open>
  The constraints of the schema that a write of the handlers can violate are part of the
  model: NOT NULL on the text columns, and the CHECK constraints on
  \<^verbatim>\<open>risk_level\<close> and \<^verbatim>\<open>status\<close>. A write that violates one changes nothing.
\<close>

definition risk_levels :: "string list" where
  "risk_levels = [''low'', ''medium'', ''high'']"

definition statuses :: "string list" where
  "statuses = [''draft'', ''finalized'']"

text \<open>The row after \<^verbatim>\<open>.update(p)\<close>; a key that is \<^verbatim>\<open>undefined\<close> is not sent.\<close>

definition patch_row :: "obs_patch \<Rightarrow> obs_row \<Rightarrow> obs_row option" where
  "patch_row p r =
    (let text' = (if p_observation p = JUndefined then Some (o_observation r)
                  else column_text (p_observation p));
         risk' = (if p_risk_level p = JUndefined then Some (o_risk_level r)
                  else column_text (p_risk_level p));
         image' = (if p_image_url p = JUndefined then o_image_url r
                   else column_text (p_image_url p))
     in case (text', risk') of
          (Some t, Some k) \<Rightarrow>
            if k \<in> set risk_levels
            then Some (r\<lparr>o_observation := t, o_risk_level := k, o_image_url := image'\<rparr>)
            else None
        | _ \<Rightarrow> None)"

text \<open>
  \<^verbatim>\<open>from('observations').update(p).eq('id', obsId).eq('report_id', reportId)\<close>:
  whether it went through, and the state after it.
\<close>

definition update_observation ::
  "backend \<Rightarrow> string \<Rightarrow> string \<Rightarrow> obs_patch \<Rightarrow> world \<Rightarrow> bool \<times> world" where
  "update_observation b obsId reportId p w =
    (let (ok, w1) = attempt b (Observations_update obsId reportId p) w;
         rows = map (\<lambda>r. if o_id r = obsId \<and> o_report_id r = reportId then patch_row p r else Some r)
                  (observations w1)
     in case (if ok then those rows else None) of
          Some rs \<Rightarrow> (True, w1\<lparr>observations := rs\<rparr>)
        | None \<Rightarrow> (False, w1))"

text \<open>The row an inserted object becomes; the database generates a missing id.\<close>

definition row_of_object :: "string \<Rightarrow> obs_object \<Rightarrow> obs_row option" where
  "row_of_object fresh n =
    (case (column_text (n_report_id n), column_text (n_observation n),
           if n_risk_level n = JUndefined then Some ''low'' else column_text (n_risk_level n)) of
       (Some rid, Some t, Some k) \<Rightarrow>
         if k \<in> set risk_levels
         then Some \<lparr>o_id = (if n_id n = JUndefined then fresh else to_string (n_id n)),
                    o_report_id = rid, o_observation = t, o_risk_level = k,
                    o_image_url = column_text (n_image_url n)\<rparr>
         else None
     | _ \<Rightarrow> None)"

text \<open>\<^verbatim>\<open>from('observations').insert(items)\<close>: all rows or none.\<close>

definition insert_observations :: "backend \<Rightarrow> obs_object list \<Rightarrow> world \<Rightarrow> bool \<times> world" where
  "insert_observations b items w =
    (let (ok, w1) = attempt b (Observations_insert items) w;
         rows = map (\<lambda>(i, n). row_of_object (gen_id b (next_id w1 + i)) n) (enumerate 0 items)
     in case (if ok then those rows else None) of
          Some rs \<Rightarrow> (True, w1\<lparr>observations := observations w1 @ rs,
                                 next_id := next_id w1 + length items\<rparr>)
        | None \<Rightarrow> (False, w1))"

text \<open>\<^verbatim>\<open>from('observations').delete().eq('id', obsId).eq('report_id', reportId)\<close>\<close>

definition delete_observation :: "backend \<Rightarrow> string \<Rightarrow> string \<Rightarrow> world \<Rightarrow> bool \<times> world" where
  "delete_observation b obsId reportId w =
    (let (ok, w1) = attempt b (Observations_delete obsId reportId) w
     in if ok
        then (True, w1\<lparr>observations :=
                filter (\<lambda>r. \<not> (o_id r = obsId \<and> o_report_id r = reportId)) (observations w1)\<rparr>)
        else (False, w1))"

text \<open>\<^verbatim>\<open>from('observations').select('*').eq('report_id', reportId)\<close>: \<open>None\<close> is \<^verbatim>\<open>data: null\<close>.\<close>

definition select_observations :: "backend \<Rightarrow> string \<Rightarrow> world \<Rightarrow> obs_row list option \<times> world" where
  "select_observations b reportId w =
    (let (ok, w1) = attempt b (Observations_select reportId) w
     in (if ok then Some (filter (\<lambda>r. o_report_id r = reportId) (observations w1)) else None, w1))"

text \<open>The row \<^verbatim>\<open>from('reports').insert(newReport)\<close> creates.\<close>

definition row_of_report :: "string \<Rightarrow> new_report \<Rightarrow> report_row option" where
  "row_of_report fresh n =
    (case (column_text (nr_company_id n), column_text (nr_date n),
           column_text (nr_description n), column_text (nr_status n)) of
       (Some cid, Some d, Some t, Some s) \<Rightarrow>
         if s \<in> set statuses
         then Some \<lparr>rp_id = fresh, rp_company_id = cid, rp_user_id = nr_user_id n, rp_date = d,
                    rp_contact = column_text (nr_contact n), rp_description = t,
                    rp_verification = column_text (nr_verification n),
                    rp_recommendations = column_text (nr_recommendations n),
                    rp_signature = column_text (nr_signature n),
                    rp_visit_confirmation = nr_visit_confirmation n, rp_status = s\<rparr>
         else None
     | _ \<Rightarrow> None)"

text \<open>\<^verbatim>\<open>from('reports').insert(newReport).select().single()\<close>: the new row, or an error.\<close>

definition insert_report :: "backend \<Rightarrow> new_report \<Rightarrow> world \<Rightarrow> report_row option \<times> world" where
  "insert_report b n w =
    (let (ok, w1) = attempt b (Reports_insert n) w
     in case (if ok then row_of_report (gen_id b (next_id w1)) n else None) of
          Some r \<Rightarrow> (Some r, w1\<lparr>reports := reports w1 @ [r], next_id := Suc (next_id w1)\<rparr>)
        | None \<Rightarrow> (None, w1))"

text \<open>The report row after \<^verbatim>\<open>.update(updates)\<close>.\<close>

definition required_text :: "jsval option \<Rightarrow> string \<Rightarrow> string option" where
  "required_text u old = (case u of None \<Rightarrow> Some old | Some v \<Rightarrow> column_text v)"

definition nullable_text :: "jsval option \<Rightarrow> string option \<Rightarrow> string option" where
  "nullable_text u old = (case u of None \<Rightarrow> old | Some v \<Rightarrow> column_text v)"

definition update_row :: "report_updates \<Rightarrow> report_row \<Rightarrow> report_row option" where
  "update_row u r =
    (case (required_text (u_date u) (rp_date r), required_text (u_description u) (rp_description r),
           required_text (u_status u) (rp_status r)) of
       (Some d, Some t, Some s) \<Rightarrow>
         if s \<in> set statuses
         then Some (r\<lparr>rp_date := d, rp_description := t, rp_status := s,
                      rp_contact := nullable_text (u_contact u) (rp_contact r),
                      rp_verification := nullable_text (u_verification u) (rp_verification r),
                      rp_recommendations := nullable_text (u_recommendations u) (rp_recommendations r),
                      rp_signature := nullable_text (u_signature u) (rp_signature r),
                      rp_visit_confirmation :=
                        (case u_visit_confirmation u of None \<Rightarrow> rp_visit_confirmation r | Some v \<Rightarrow> v)\<rparr>)
         else None
     | _ \<Rightarrow> None)"

text \<open>\<^verbatim>\<open>from('reports').update(updates).eq('id', reportId).eq('user_id', userId)\<close>\<close>

definition update_report ::
  "backend \<Rightarrow> string \<Rightarrow> string \<Rightarrow> report_updates \<Rightarrow> world \<Rightarrow> bool \<times> world" where
  "update_report b reportId userId u w =
    (let (ok, w1) = attempt b (Reports_update reportId userId u) w;
         rows = map (\<lambda>r. if rp_id r = reportId \<and> rp_user_id r = userId then update_row u r else Some r)
                  (reports w1)
     in case (if ok then those rows else None) of
          Some rs \<Rightarrow> (True, w1\<lparr>reports := rs\<rparr>)
        | None \<Rightarrow> (False, w1))"

text \<open>
  \<^verbatim>\<open>from('reports').delete().eq('id', reportId).eq('user_id', userId)\<close>; the
  observations of a deleted report go with it (ON DELETE CASCADE).
\<close>

definition delete_report :: "backend \<Rightarrow> string \<Rightarrow> string \<Rightarrow> world \<Rightarrow> bool \<times> world" where
  "delete_report b reportId userId w =
    (let (ok, w1) = attempt b (Reports_delete reportId userId) w;
         gone = filter (\<lambda>r. rp_id r = reportId \<and> rp_user_id r = userId) (reports w1)
     in if ok
        then (True, w1\<lparr>reports := filter (\<lambda>r. \<not> (rp_id r = reportId \<and> rp_user_id r = userId)) (reports w1),
                       observations := filter (\<lambda>x. o_report_id x \<notin> set (map rp_id gone)) (observations w1)\<rparr>)
        else (False, w1))"

section \<open>Images\<close>

text \<open>
  \<^verbatim>\<open>uploadImage\<close> of controllers/reportController.js (and
  \<^verbatim>\<open>uploadImageFromPath\<close> of utils/imageUtils.js, which is given the file's path instead
  of its original name and reads the file itself): store the file under a new name and
  return its public URL; any failure is thrown. The controller reads the temporary file
  before the call and unlinks it after the call (\<open>send_file\<close> and \<open>ctl_end\<close> below).
\<close>

definition uploadImage :: "backend \<Rightarrow> string \<Rightarrow> string \<Rightarrow> world \<Rightarrow> (error + jsval) \<times> world" where
  "uploadImage b fileName userId w =
    (let (stored, w1) = attempt b (Storage_upload userId fileName) w
     in if stored then (Inr (JStr (public_url b (length (oplog w)))), w1) else (Inl Exception, w1))"

text \<open>
  \<^verbatim>\<open>deleteImage\<close> of utils/imageUtils.js, which only services/reportService.js
  calls: every failure is caught and reported as \<^verbatim>\<open>false\<close>.
\<close>

definition deleteImage :: "backend \<Rightarrow> jsval \<Rightarrow> world \<Rightarrow> bool \<times> world" where
  "deleteImage b imageUrl w =
    (if \<not> truthy imageUrl then (True, w)
     else case storage_path b (to_string imageUrl) of
            None \<Rightarrow> (False, w)
          | Some path \<Rightarrow> attempt b (Storage_remove [path]) w)"

section \<open>Reports: the handlers of the routes (controllers/reportController.js)\<close>

text \<open>
  \<^verbatim>\<open>getReport\<close>: the report of that id and user, with its observations,
  \<^verbatim>\<open>from('reports').select(...).eq('id', reportId).eq('user_id', userId).single()\<close>;
  every error is answered with 404.
\<close>

definition getReport ::
  "backend \<Rightarrow> string \<Rightarrow> string \<Rightarrow> world \<Rightarrow> (error + report_row \<times> obs_row list) \<times> world" where
  "getReport b reportId userId w =
    (let (ok, w1) = attempt b (Reports_select reportId userId) w
     in case (if ok then single (filter (\<lambda>r. rp_id r = reportId \<and> rp_user_id r = userId) (reports w1))
              else None) of
          None \<Rightarrow> (Inl (ApiError 404 ''Report not found''), w1)
        | Some r \<Rightarrow> (Inr (r, filter (\<lambda>x. o_report_id x = reportId) (observations w1)), w1))"

text \<open>
  The company check of \<^verbatim>\<open>createReport\<close>:
  \<^verbatim>\<open>from('companies').select('*').eq('id', companyId).eq('user_id', userId).single()\<close>.
  After the shared-access migration the column \<^verbatim>\<open>user_id\<close> is gone and the query fails.
\<close>

definition company_of_user :: "backend \<Rightarrow> jsval \<Rightarrow> string \<Rightarrow> world \<Rightarrow> company_row option \<times> world" where
  "company_of_user b companyId userId w =
    (let (ok, w1) = attempt b (Companies_select_id_user (to_string companyId) userId) w
     in (if ok \<and> \<not> shared_access w1
         then single (filter (\<lambda>c. c_id c = to_string companyId \<and> c_user_id c = Some userId) (companies w1))
         else None, w1))"

text \<open>The object literal \<^verbatim>\<open>newReport\<close>; \<^verbatim>\<open>status\<close> defaults to \<^verbatim>\<open>'draft'\<close> when missing.\<close>

definition newReport :: "report_body \<Rightarrow> string \<Rightarrow> new_report" where
  "newReport body userId =
    \<lparr>nr_company_id = rb_companyId body,
     nr_user_id = userId,
     nr_date = rb_date body,
     nr_contact = js_or (rb_contact body) (JStr ''''),
     nr_description = rb_description body,
     nr_verification = js_or (rb_verification body) (JStr ''''),
     nr_recommendations = js_or (rb_recommendations body) (JStr ''''),
     nr_signature = js_or (rb_signature body) (JStr ''''),
     nr_visit_confirmation =
       (rb_visitConfirmation body = JStr ''true'' \<or> rb_visitConfirmation body = JBool True),
     nr_status = (if rb_status body = JUndefined then JStr ''draft'' else rb_status body)\<rparr>"

text \<open>
  A list-valued field after \<^verbatim>\<open>typeof x === 'string' ? JSON.parse(x) : x\<close>, with the
  default \<^verbatim>\<open>[]\<close> for a missing one; \<open>None\<close> when \<^verbatim>\<open>JSON.parse\<close> throws or does not
  give an array.
\<close>

fun parsed :: "(string \<Rightarrow> 'a list option) \<Rightarrow> 'a js_list \<Rightarrow> 'a list option" where
  "parsed parse Missing = Some []"
| "parsed parse (JsonText s) = parse s"
| "parsed parse (JsArray xs) = Some xs"

text \<open>
  The properties every JavaScript object inherits from \<^verbatim>\<open>Object.prototype\<close>; each of
  them is a function or an object, so it is truthy, and reading a further property of
  it that it does not have gives \<^verbatim>\<open>undefined\<close>.
\<close>

definition Object_prototype_keys :: "string list" where
  "Object_prototype_keys =
    [''constructor'', ''__defineGetter__'', ''__defineSetter__'', ''hasOwnProperty'',
     ''__lookupGetter__'', ''__lookupSetter__'', ''isPrototypeOf'', ''propertyIsEnumerable'',
     ''toString'', ''valueOf'', ''__proto__'', ''toLocaleString'']"

text \<open>What \<^verbatim>\<open>existingObsMap[key]\<close> reads.\<close>

datatype member = Own obs_row | Inherited | Absent

text \<open>
  \<^verbatim>\<open>existingObs ? existingObs.reduce((acc, obs) => { acc[obs.id] = obs; return acc; }, {}) : {}\<close>
  as a lookup; of two rows with one id the later is kept. (The ids of stored rows are
  generated by the database, so none of them is an inherited key.)
\<close>

definition existingObsMap :: "obs_row list option \<Rightarrow> string \<Rightarrow> member" where
  "existingObsMap existingObs key =
    (case find (\<lambda>r. o_id r = key) (rev (case existingObs of None \<Rightarrow> [] | Some rows \<Rightarrow> rows)) of
       Some r \<Rightarrow> Own r
     | None \<Rightarrow> if key \<in> set Object_prototype_keys then Inherited else Absent)"

fun member_observation :: "member \<Rightarrow> jsval" where
  "member_observation (Own r) = JStr (o_observation r)"
| "member_observation m = JUndefined"

fun member_risk_level :: "member \<Rightarrow> jsval" where
  "member_risk_level (Own r) = JStr (o_risk_level r)"
| "member_risk_level m = JUndefined"

fun member_image_url :: "member \<Rightarrow> jsval" where
  "member_image_url (Own r) = js_of_column (o_image_url r)"
| "member_image_url m = JUndefined"

text \<open>The object \<^verbatim>\<open>updates\<close>, built field by field.\<close>

definition updates_of :: "report_body \<Rightarrow> report_updates" where
  "updates_of body =
    \<lparr>u_date = (if truthy (rb_date body) then Some (rb_date body) else None),
     u_contact = (if rb_contact body \<noteq> JUndefined then Some (rb_contact body) else None),
     u_description = (if truthy (rb_description body) then Some (rb_description body) else None),
     u_verification = (if rb_verification body \<noteq> JUndefined then Some (rb_verification body) else None),
     u_recommendations =
       (if rb_recommendations body \<noteq> JUndefined then Some (rb_recommendations body) else None),
     u_signature = (if rb_signature body \<noteq> JUndefined then Some (rb_signature body) else None),
     u_visit_confirmation =
       (if rb_visitConfirmation body \<noteq> JUndefined
        then Some (rb_visitConfirmation body = JStr ''true'' \<or> rb_visitConfirmation body = JBool True)
        else None),
     u_status = (if truthy (rb_status body) then Some (rb_status body) else None)\<rparr>"


text \<open>\<^verbatim>\<open>if (req.body.observations)\<close> on the field as it arrived.\<close>

fun present :: "'a js_list \<Rightarrow> bool" where
  "present Missing = False"
| "present (JsonText s) = (s \<noteq> [])"
| "present (JsArray xs) = True"

text \<open>
  What a callback does with the file it has found:
  \<^verbatim>\<open>fs.readFileSync(file.path)\<close>, which throws when no file is at that path, and the
  upload. \<open>None\<close> is a callback that throws.
\<close>

definition send_file :: "backend \<Rightarrow> upload_file \<Rightarrow> string \<Rightarrow> world \<Rightarrow> jsval option \<times> world" where
  "send_file b file userId w =
    (if f_path file \<in> set (temp_files w)
     then (case uploadImage b (f_originalname file) userId w of
             (Inl e, w1) \<Rightarrow> (None, w1)
           | (Inr imageUrl, w1) \<Rightarrow> (Some imageUrl, w1))
     else (None, w))"

text \<open>
  The callbacks of \<^verbatim>\<open>observations.map(async (obs) => ...)\<close> are started one after
  another, and each runs up to its first \<^verbatim>\<open>await\<close>, which is inside the upload: every
  file is read and every upload is sent before any callback goes on to
  \<^verbatim>\<open>fs.unlinkSync(file.path)\<close>. A callback that has been started has thrown (its file
  could not be read, or its upload fails), or has returned its object without a file, or
  has sent its upload and has still to unlink the file at the path and to return the
  object. Whether an upload fails is decided when it is sent.
\<close>

datatype pending = Thrown | Returned obs_object | Uploaded string obs_object

text \<open>
  The rest of a callback: \<^verbatim>\<open>fs.unlinkSync(file.path)\<close> throws when the file is no
  longer there.
\<close>

definition ctl_end :: "pending \<Rightarrow> world \<Rightarrow> (error + obs_object) \<times> world" where
  "ctl_end p w =
    (case p of
       Thrown \<Rightarrow> (Inl Exception, w)
     | Returned item \<Rightarrow> (Inr item, w)
     | Uploaded path item \<Rightarrow>
         if path \<in> set (temp_files w)
         then (Inr item, w\<lparr>temp_files := removeAll path (temp_files w)\<rparr>)
         else (Inl Exception, w))"

text \<open>
  \<^verbatim>\<open>await Promise.all(observationPromises)\<close>, once every callback has been started:
  the objects in the order of the entries, or an exception when a callback throws. The
  callbacks that have not thrown go on also when another one has. (They end in an order
  the code does not fix; here they end in the order of the entries. The result and the
  state afterwards do not depend on it.)
\<close>

fun ctl_end_all :: "pending list \<Rightarrow> world \<Rightarrow> (error + obs_object list) \<times> world" where
  "ctl_end_all [] w = (Inr [], w)"
| "ctl_end_all (p # ps) w =
    (let (first, w1) = ctl_end p w;
         (others, w2) = ctl_end_all ps w1
     in (case first of
           Inl e \<Rightarrow> (Inl e, w2)
         | Inr item \<Rightarrow>
             (case others of
                Inl e \<Rightarrow> (Inl e, w2)
              | Inr items \<Rightarrow> (Inr (item # items), w2))))"

text \<open>
  The \<^verbatim>\<open>catch\<close> block of \<^verbatim>\<open>createReport\<close> and of \<^verbatim>\<open>updateReport\<close>: when the
  handler ends with an error, every file of the request that still exists is unlinked.
\<close>

definition catch_files :: "upload_file list \<Rightarrow> (error + 'a) \<times> world \<Rightarrow> (error + 'a) \<times> world" where
  "catch_files files r =
    (case r of
       (Inl e, w) \<Rightarrow> (Inl e, w\<lparr>temp_files := filter (\<lambda>p. p \<notin> set (map f_path files)) (temp_files w)\<rparr>)
     | (Inr x, w) \<Rightarrow> (Inr x, w))"

text \<open>
  The callbacks of \<^verbatim>\<open>observations.map(async (obs, index) => ...)\<close> in
  \<^verbatim>\<open>createReport\<close>, started one after another: the file at the same index is the
  image.
\<close>

fun create_begin_all ::
  "backend \<Rightarrow> string \<Rightarrow> upload_file list \<Rightarrow> string \<Rightarrow> nat \<Rightarrow> entry list \<Rightarrow> world \<Rightarrow>
   pending list \<times> world" where
  "create_begin_all b reportId files userId index [] w = ([], w)"
| "create_begin_all b reportId files userId index (obs # rest) w =
    (let item = (\<lambda>imageUrl. \<lparr>n_id = JUndefined, n_report_id = JStr reportId,
                    n_observation = e_observation obs,
                    n_risk_level = js_or (e_riskLevel obs) (JStr ''low''),
                    n_image_url = imageUrl\<rparr>);
         (p, w1) =
           (if index < length files
            then (case send_file b (files ! index) userId w of
                    (None, w1) \<Rightarrow> (Thrown, w1)
                  | (Some imageUrl, w1) \<Rightarrow> (Uploaded (f_path (files ! index)) (item imageUrl), w1))
            else (Returned (item JNull), w));
         (ps, w2) = create_begin_all b reportId files userId (Suc index) rest w1
     in (p # ps, w2))"

text \<open>\<^verbatim>\<open>createReport\<close>, the handler of \<^verbatim>\<open>POST /api/reports\<close>.\<close>

definition ctl_createReport ::
  "backend \<Rightarrow> report_body \<Rightarrow> upload_file list \<Rightarrow> string \<Rightarrow> world \<Rightarrow>
   (error + report_row \<times> obs_object list) \<times> world" where
  "ctl_createReport b body files userId w =
    catch_files files
      (case (if present (rb_observations body)
             then parsed (parse_observations b) (rb_observations body) else Some []) of
         None \<Rightarrow> (Inl Exception, w)
       | Some entries \<Rightarrow>
           if \<not> truthy (rb_companyId body) \<or> \<not> truthy (rb_date body) \<or> \<not> truthy (rb_description body)
           then (Inl (ApiError 400 ''Company ID, date, and description are required''), w)
           else
             (case company_of_user b (rb_companyId body) userId w of
                (None, w1) \<Rightarrow> (Inl (ApiError 404 ''Company not found''), w1)
              | (Some company, w1) \<Rightarrow>
                  (case insert_report b (newReport body userId) w1 of
                     (None, w2) \<Rightarrow> (Inl (ApiBackendError 400), w2)
                   | (Some reportData, w2) \<Rightarrow>
                       let (started, w3) = create_begin_all b (rp_id reportData) files userId 0 entries w2
                       in (case ctl_end_all started w3 of
                             (Inl e, w4) \<Rightarrow> (Inl e, w4)
                           | (Inr observationItems, w4) \<Rightarrow>
                               let (inserted, w5) =
                                     (if observationItems \<noteq> []
                                      then insert_observations b observationItems w4
                                      else (True, w4))
                               in if \<not> inserted then (Inl (ApiBackendError 400), w5)
                                  else (Inr (reportData, observationItems), w5)))))"

text \<open>
  The field name under which \<^verbatim>\<open>updateReport\<close> looks for the file of a new entry:
  \<^verbatim>\<open>`image_new_${obs.tempId || Date.now()}`\<close>.
\<close>

definition new_image_field :: "backend \<Rightarrow> world \<Rightarrow> entry \<Rightarrow> string" where
  "new_image_field b w obs =
    ''image_new_'' @ to_string (js_or (e_tempId obs) (JNum (int (now b (length (oplog w))))))"

text \<open>
  A callback of \<^verbatim>\<open>observations.map(async (obs) => ...)\<close> in \<^verbatim>\<open>updateReport\<close>, up
  to the point where every callback has been started.
\<close>

definition ctl_begin ::
  "backend \<Rightarrow> string \<Rightarrow> upload_file list \<Rightarrow> string \<Rightarrow> (string \<Rightarrow> member) \<Rightarrow> entry \<Rightarrow> world \<Rightarrow>
   pending \<times> world" where
  "ctl_begin b reportId files userId obsMap obs w =
    (let supplied = js_or (e_imageUrl obs) JNull
     in if truthy (e_id obs) \<and> obsMap (to_string (e_id obs)) \<noteq> Absent
        then
          let existing = obsMap (to_string (e_id obs));
              item = (\<lambda>imageUrl. \<lparr>n_id = e_id obs, n_report_id = JUndefined,
                         n_observation = js_or (e_observation obs) (member_observation existing),
                         n_risk_level = js_or (e_riskLevel obs) (member_risk_level existing),
                         n_image_url = js_or imageUrl (member_image_url existing)\<rparr>)
          in (case (if truthy (e_newImage obs) \<and> files \<noteq> []
                    then find (\<lambda>f. f_fieldname f = ''image_'' @ to_string (e_id obs)) files
                    else None) of
                Some file \<Rightarrow>
                  (case send_file b file userId w of
                     (None, w1) \<Rightarrow> (Thrown, w1)
                   | (Some imageUrl, w1) \<Rightarrow> (Uploaded (f_path file) (item imageUrl), w1))
              | None \<Rightarrow> (Returned (item supplied), w))
        else
          let item = (\<lambda>imageUrl. \<lparr>n_id = JUndefined, n_report_id = JStr reportId,
                         n_observation = e_observation obs,
                         n_risk_level = js_or (e_riskLevel obs) (JStr ''low''),
                         n_image_url = imageUrl\<rparr>)
          in (case (if files \<noteq> []
                    then find (\<lambda>f. f_fieldname f = new_image_field b w obs) files
                    else None) of
                Some file \<Rightarrow>
                  (case send_file b file userId w of
                     (None, w1) \<Rightarrow> (Thrown, w1)
                   | (Some imageUrl, w1) \<Rightarrow> (Uploaded (f_path file) (item imageUrl), w1))
              | None \<Rightarrow> (Returned (item supplied), w)))"

text \<open>
  One callback from its start to its end, with no other callback at work: the processed
  observation of one entry.
\<close>

definition ctl_entry ::
  "backend \<Rightarrow> string \<Rightarrow> upload_file list \<Rightarrow> string \<Rightarrow> (string \<Rightarrow> member) \<Rightarrow> entry \<Rightarrow> world \<Rightarrow>
   (error + obs_object) \<times> world" where
  "ctl_entry b reportId files userId obsMap obs w =
    (let (p, w1) = ctl_begin b reportId files userId obsMap obs w in ctl_end p w1)"

text \<open>The callbacks of all entries, started one after another.\<close>

fun ctl_begin_all ::
  "backend \<Rightarrow> string \<Rightarrow> upload_file list \<Rightarrow> string \<Rightarrow> (string \<Rightarrow> member) \<Rightarrow> entry list \<Rightarrow> world \<Rightarrow>
   pending list \<times> world" where
  "ctl_begin_all b reportId files userId obsMap [] w = ([], w)"
| "ctl_begin_all b reportId files userId obsMap (obs # rest) w =
    (let (p, w1) = ctl_begin b reportId files userId obsMap obs w;
         (ps, w2) = ctl_begin_all b reportId files userId obsMap rest w1
     in (p # ps, w2))"

text \<open>
  \<^verbatim>\<open>observations.map(async (obs) => ...)\<close> followed by
  \<^verbatim>\<open>await Promise.all(observationPromises)\<close>.
\<close>

definition ctl_entries ::
  "backend \<Rightarrow> string \<Rightarrow> upload_file list \<Rightarrow> string \<Rightarrow> (string \<Rightarrow> member) \<Rightarrow> entry list \<Rightarrow> world \<Rightarrow>
   (error + obs_object list) \<times> world" where
  "ctl_entries b reportId files userId obsMap entries w =
    (let (started, w1) = ctl_begin_all b reportId files userId obsMap entries w
     in ctl_end_all started w1)"

text \<open>\<^verbatim>\<open>for (const obs of observationsToUpdate)\<close>: the first update that fails is thrown.\<close>

fun ctl_updates :: "backend \<Rightarrow> string \<Rightarrow> obs_object list \<Rightarrow> world \<Rightarrow> (error + unit) \<times> world" where
  "ctl_updates b reportId [] w = (Inr (), w)"
| "ctl_updates b reportId (obs # rest) w =
    (case update_observation b (to_string (n_id obs)) reportId
            \<lparr>p_observation = n_observation obs, p_risk_level = n_risk_level obs,
             p_image_url = n_image_url obs\<rparr> w of
       (False, w1) \<Rightarrow> (Inl (ApiBackendError 400), w1)
     | (True, w1) \<Rightarrow> ctl_updates b reportId rest w1)"

text \<open>The block \<^verbatim>\<open>if (observations && observations.length > 0) { ... }\<close> of the handler.\<close>

definition ctl_observations ::
  "backend \<Rightarrow> string \<Rightarrow> upload_file list \<Rightarrow> string \<Rightarrow> entry list \<Rightarrow> world \<Rightarrow> (error + unit) \<times> world" where
  "ctl_observations b reportId files userId entries w =
    (let (existingObs, w1) = select_observations b reportId w
     in (case ctl_entries b reportId files userId (existingObsMap existingObs) entries w1 of
           (Inl e, w2) \<Rightarrow> (Inl e, w2)
         | (Inr processedObservations, w2) \<Rightarrow>
             let observationsToUpdate = filter (\<lambda>obs. truthy (n_id obs)) processedObservations;
                 observationsToInsert = filter (\<lambda>obs. \<not> truthy (n_id obs)) processedObservations
             in (case ctl_updates b reportId observationsToUpdate w2 of
                   (Inl e, w3) \<Rightarrow> (Inl e, w3)
                 | (Inr u, w3) \<Rightarrow>
                     if observationsToInsert \<noteq> []
                     then (case insert_observations b observationsToInsert w3 of
                             (False, w4) \<Rightarrow> (Inl (ApiBackendError 400), w4)
                           | (True, w4) \<Rightarrow> (Inr (), w4))
                     else (Inr (), w3))))"

text \<open>
  The last query of the handler:
  \<^verbatim>\<open>from('reports').select('*, observations (...)').eq('id', reportId).single()\<close>.
\<close>

definition finalReport ::
  "backend \<Rightarrow> string \<Rightarrow> world \<Rightarrow> (error + report_row \<times> obs_row list) \<times> world" where
  "finalReport b reportId w =
    (let (ok, w1) = attempt b (Reports_select_id reportId) w
     in case (if ok then single (filter (\<lambda>r. rp_id r = reportId) (reports w1)) else None) of
          None \<Rightarrow> (Inl (ApiBackendError 400), w1)
        | Some r \<Rightarrow> (Inr (r, filter (\<lambda>x. o_report_id x = reportId) (observations w1)), w1))"

text \<open>
  \<^verbatim>\<open>updateReport\<close>, the handler of \<^verbatim>\<open>PUT /api/reports/:id\<close>. Its first query is
  the one of \<open>getReport\<close> without the joined tables, with the same filter and the same
  error. Its update of the report is made also with no key set, and ends with
  \<^verbatim>\<open>.select().single()\<close>, which returns the row the first query found. The field
  \<^verbatim>\<open>observationsToDelete\<close> is not read.
\<close>

definition ctl_updateReport ::
  "backend \<Rightarrow> string \<Rightarrow> report_body \<Rightarrow> upload_file list \<Rightarrow> string \<Rightarrow> world \<Rightarrow>
   (error + report_row \<times> obs_row list) \<times> world" where
  "ctl_updateReport b reportId body files userId w =
    catch_files files
      (case (if present (rb_observations body)
             then parsed (parse_observations b) (rb_observations body) else Some []) of
         None \<Rightarrow> (Inl Exception, w)
       | Some entries \<Rightarrow>
           (case getReport b reportId userId w of
              (Inl e, w1) \<Rightarrow> (Inl e, w1)
            | (Inr existingReport, w1) \<Rightarrow>
                (case update_report b reportId userId (updates_of body) w1 of
                   (False, w2) \<Rightarrow> (Inl (ApiBackendError 400), w2)
                 | (True, w2) \<Rightarrow>
                     let (processed, w3) =
                           (if entries \<noteq> []
                            then ctl_observations b reportId files userId entries w2
                            else (Inr (), w2))
                     in (case processed of
                           Inl e \<Rightarrow> (Inl e, w3)
                         | Inr u \<Rightarrow> finalReport b reportId w3))))"

text \<open>
  \<^verbatim>\<open>url.pathname.split('/').pop()\<close>: what follows the last slash of the path.
\<close>

definition last_segment :: "string \<Rightarrow> string" where
  "last_segment s = rev (takeWhile (\<lambda>c. c \<noteq> CHR ''/'') (rev s))"

text \<open>
  \<^verbatim>\<open>observations.filter(obs => obs.image_url).map(obs => { const url = new URL(obs.image_url); return url.pathname.split('/').pop(); })\<close>
  in \<^verbatim>\<open>deleteReport\<close>; \<open>None\<close> when a constructor throws.
\<close>

fun imagePaths :: "backend \<Rightarrow> obs_row list \<Rightarrow> string list option" where
  "imagePaths b [] = Some []"
| "imagePaths b (obs # rest) =
    (if truthy (js_of_column (o_image_url obs))
     then (case url_pathname b (to_string (js_of_column (o_image_url obs))) of
             None \<Rightarrow> None
           | Some pathname \<Rightarrow> map_option (Cons (last_segment pathname)) (imagePaths b rest))
     else imagePaths b rest)"

text \<open>
  \<^verbatim>\<open>deleteReport\<close>, the handler of \<^verbatim>\<open>DELETE /api/reports/:id\<close>. Its first query is
  the one of \<open>getReport\<close> without the joined tables. The error of the select on
  \<^verbatim>\<open>observations\<close> and the result of \<^verbatim>\<open>remove\<close> are not looked at; the paths are
  built after the report has been deleted, inside the same \<^verbatim>\<open>try\<close>.
\<close>

definition ctl_deleteReport ::
  "backend \<Rightarrow> string \<Rightarrow> string \<Rightarrow> world \<Rightarrow> (error + unit) \<times> world" where
  "ctl_deleteReport b reportId userId w =
    (case getReport b reportId userId w of
       (Inl e, w1) \<Rightarrow> (Inl e, w1)
     | (Inr existingReport, w1) \<Rightarrow>
         let (found, w2) = select_observations b reportId w1
         in (case delete_report b reportId userId w2 of
               (False, w3) \<Rightarrow> (Inl (ApiBackendError 400), w3)
             | (True, w3) \<Rightarrow>
                 (case found of
                    None \<Rightarrow> (Inr (), w3)
                  | Some rows \<Rightarrow>
                      (case imagePaths b rows of
                         None \<Rightarrow> (Inl Exception, w3)
                       | Some paths \<Rightarrow>
                           if paths \<noteq> []
                           then (Inr (), snd (attempt b (Storage_remove paths) w3))
                           else (Inr (), w3)))))"

section \<open>The route of an update (routes/reportRoutes.js)\<close>

text \<open>
  \<^verbatim>\<open>upload.array('images')\<close> of multer, which runs before the handler: a file that
  arrives in another field ends the request with an error ("Unexpected field"), and
  nothing of the request is kept; otherwise every file is written under
  \<^verbatim>\<open>uploads/\<close> and handed over as \<^verbatim>\<open>req.files\<close>.
\<close>

definition upload_array :: "string \<Rightarrow> upload_file list \<Rightarrow> world \<Rightarrow> (error + unit) \<times> world" where
  "upload_array name files w =
    (if list_all (\<lambda>f. f_fieldname f = name) files
     then (Inr (), w\<lparr>temp_files := temp_files w @ map f_path files\<rparr>)
     else (Inl Exception, w))"

text \<open>
  \<^verbatim>\<open>router.put('/:id', upload.array('images'), reportController.updateReport)\<close>, for
  an authenticated user.
\<close>

definition put_report ::
  "backend \<Rightarrow> string \<Rightarrow> report_body \<Rightarrow> upload_file list \<Rightarrow> string \<Rightarrow> world \<Rightarrow>
   (error + report_row \<times> obs_row list) \<times> world" where
  "put_report b reportId body files userId w =
    (case upload_array ''images'' files w of
       (Inl e, w1) \<Rightarrow> (Inl e, w1)
     | (Inr u, w1) \<Rightarrow> ctl_updateReport b reportId body files userId w1)"

section \<open>Reports: services/reportService.js\<close>

text \<open>
  No file requires this module, and as shipped it does not load: \<^verbatim>\<open>createReport\<close>
  declares \<^verbatim>\<open>const reportData\<close> where \<^verbatim>\<open>reportData\<close> is already its parameter, a
  syntax error. \<^verbatim>\<open>createReport\<close> is therefore not modelled; the definitions below follow
  the text of \<^verbatim>\<open>updateReport\<close> and \<^verbatim>\<open>deleteReport\<close> (its \<^verbatim>\<open>getReport\<close> is the
  query \<open>getReport\<close> above), and say what these functions would do could they be
  called. The requests are served by the handlers above.
\<close>

text \<open>\<^verbatim>\<open>x && x.length > 0\<close> on the field as it arrived (the default \<^verbatim>\<open>[]\<close> when missing).\<close>

fun provided :: "'a js_list \<Rightarrow> bool" where
  "provided Missing = False"
| "provided (JsonText s) = (s \<noteq> [])"
| "provided (JsArray xs) = (xs \<noteq> [])"

definition no_updates :: report_updates where
  "no_updates = \<lparr>u_date = None, u_contact = None, u_description = None, u_verification = None,
     u_recommendations = None, u_signature = None, u_visit_confirmation = None, u_status = None\<rparr>"


text \<open>
  The body of \<^verbatim>\<open>for (const obs of parsedObservations)\<close> in \<^verbatim>\<open>updateReport\<close> of the
  service. The results of its update and insert calls are not looked at.
\<close>

definition svc_entry ::
  "backend \<Rightarrow> string \<Rightarrow> upload_file list \<Rightarrow> string \<Rightarrow> (string \<Rightarrow> member) \<Rightarrow> entry \<Rightarrow> world \<Rightarrow>
   (error + unit) \<times> world" where
  "svc_entry b reportId files userId obsMap obs w =
    (if truthy (e_id obs) \<and> obsMap (to_string (e_id obs)) \<noteq> Absent
     then
       let existing = obsMap (to_string (e_id obs));
           kept = js_or (e_imageUrl obs) (member_image_url existing);
           (imageUrl, w1) =
             (if truthy (e_newImage obs) \<and> files \<noteq> []
              then (case find (\<lambda>f. f_fieldname f = ''image_'' @ to_string (e_id obs)) files of
                      Some file \<Rightarrow> uploadImage b (f_path file) userId w
                    | None \<Rightarrow> (Inr kept, w))
              else (Inr kept, w))
       in case imageUrl of
            Inl e \<Rightarrow> (Inl e, w1)
          | Inr url \<Rightarrow>
              (Inr (), snd (update_observation b (to_string (e_id obs)) reportId
                 \<lparr>p_observation = js_or (e_observation obs) (member_observation existing),
                  p_risk_level = js_or (e_riskLevel obs) (member_risk_level existing),
                  p_image_url = url\<rparr> w1))
     else
       let (imageUrl, w1) =
             (if files \<noteq> []
              then (case find (\<lambda>f. f_fieldname f =
                                 ''image_new_'' @ to_string (js_or (e_tempId obs) (JNum (int (now b (length (oplog w)))))))
                           files of
                      Some file \<Rightarrow> uploadImage b (f_path file) userId w
                    | None \<Rightarrow> (Inr JNull, w))
              else (Inr JNull, w))
       in case imageUrl of
            Inl e \<Rightarrow> (Inl e, w1)
          | Inr url \<Rightarrow>
              (Inr (), snd (insert_observations b
                 [\<lparr>n_id = JUndefined, n_report_id = JStr reportId,
                   n_observation = e_observation obs,
                   n_risk_level = js_or (e_riskLevel obs) (JStr ''low''),
                   n_image_url = url\<rparr>] w1)))"

fun svc_entries ::
  "backend \<Rightarrow> string \<Rightarrow> upload_file list \<Rightarrow> string \<Rightarrow> (string \<Rightarrow> member) \<Rightarrow> entry list \<Rightarrow> world \<Rightarrow>
   (error + unit) \<times> world" where
  "svc_entries b reportId files userId obsMap [] w = (Inr (), w)"
| "svc_entries b reportId files userId obsMap (obs # rest) w =
    (case svc_entry b reportId files userId obsMap obs w of
       (Inl e, w1) \<Rightarrow> (Inl e, w1)
     | (Inr u, w1) \<Rightarrow> svc_entries b reportId files userId obsMap rest w1)"

text \<open>The body of \<^verbatim>\<open>for (const obsId of observationsToDelete)\<close>, and the loop.\<close>

definition svc_deletion :: "backend \<Rightarrow> string \<Rightarrow> (string \<Rightarrow> member) \<Rightarrow> jsval \<Rightarrow> world \<Rightarrow> world" where
  "svc_deletion b reportId obsMap obsId w =
    (if obsMap (to_string obsId) \<noteq> Absent
     then
       let w1 = (if truthy (member_image_url (obsMap (to_string obsId)))
                 then snd (deleteImage b (member_image_url (obsMap (to_string obsId))) w)
                 else w)
       in snd (delete_observation b (to_string obsId) reportId w1)
     else w)"

fun svc_deletions :: "backend \<Rightarrow> string \<Rightarrow> (string \<Rightarrow> member) \<Rightarrow> jsval list \<Rightarrow> world \<Rightarrow> world" where
  "svc_deletions b reportId obsMap [] w = w"
| "svc_deletions b reportId obsMap (obsId # rest) w =
    svc_deletions b reportId obsMap rest (svc_deletion b reportId obsMap obsId w)"

text \<open>
  The block \<^verbatim>\<open>if (observations && observations.length > 0) { ... }\<close> of
  \<^verbatim>\<open>updateReport\<close> of the service: the entries, then the deletions.
\<close>

definition svc_observations ::
  "backend \<Rightarrow> string \<Rightarrow> report_body \<Rightarrow> upload_file list \<Rightarrow> string \<Rightarrow> world \<Rightarrow> (error + unit) \<times> world" where
  "svc_observations b reportId body files userId w =
    (case parsed (parse_observations b) (rb_observations body) of
       None \<Rightarrow> (Inl Exception, w)
     | Some parsedObservations \<Rightarrow>
         let (existingObs, w1) = select_observations b reportId w
         in (case svc_entries b reportId files userId (existingObsMap existingObs) parsedObservations w1 of
               (Inl e, w2) \<Rightarrow> (Inl e, w2)
             | (Inr u, w2) \<Rightarrow>
                 if provided (rb_observationsToDelete body)
                 then (case parsed (parse_ids b) (rb_observationsToDelete body) of
                         None \<Rightarrow> (Inl Exception, w2)
                       | Some observationsToDelete \<Rightarrow>
                           (Inr (), svc_deletions b reportId (existingObsMap existingObs)
                                      observationsToDelete w2))
                 else (Inr (), w2)))"

text \<open>\<^verbatim>\<open>updateReport\<close> of the service.\<close>

definition svc_updateReport ::
  "backend \<Rightarrow> string \<Rightarrow> report_body \<Rightarrow> upload_file list \<Rightarrow> string \<Rightarrow> world \<Rightarrow>
   (error + report_row \<times> obs_row list) \<times> world" where
  "svc_updateReport b reportId body files userId w =
    (case getReport b reportId userId w of
       (Inl e, w1) \<Rightarrow> (Inl e, w1)
     | (Inr found, w1) \<Rightarrow>
         let (updated, w2) =
               (if updates_of body \<noteq> no_updates
                then update_report b reportId userId (updates_of body) w1
                else (True, w1))
         in if \<not> updated then (Inl (ApiBackendError 400), w2)
            else
              let (processed, w3) =
                    (if provided (rb_observations body)
                     then svc_observations b reportId body files userId w2
                     else (Inr (), w2))
              in (case processed of
                    Inl e \<Rightarrow> (Inl e, w3)
                  | Inr u \<Rightarrow> getReport b reportId userId w3))"

text \<open>The loop over \<^verbatim>\<open>report.observations\<close> in \<^verbatim>\<open>deleteReport\<close> of the service.\<close>

fun delete_images :: "backend \<Rightarrow> obs_row list \<Rightarrow> world \<Rightarrow> world" where
  "delete_images b [] w = w"
| "delete_images b (obs # rest) w =
    delete_images b rest
      (if truthy (js_of_column (o_image_url obs))
       then snd (deleteImage b (js_of_column (o_image_url obs)) w)
       else w)"

text \<open>\<^verbatim>\<open>deleteReport\<close> of the service.\<close>

definition svc_deleteReport ::
  "backend \<Rightarrow> string \<Rightarrow> string \<Rightarrow> world \<Rightarrow> (error + bool) \<times> world" where
  "svc_deleteReport b reportId userId w =
    (case getReport b reportId userId w of
       (Inl e, w1) \<Rightarrow> (Inl e, w1)
     | (Inr (report, obs), w1) \<Rightarrow>
         let (deleted, w2) = delete_report b reportId userId w1
         in if \<not> deleted then (Inl (ApiBackendError 400), w2)
            else (Inr True, delete_images b obs w2))"

section \<open>Companies: services/companyService.js\<close>

text \<open>
  These functions are not reached from any route. They are written for the schema before
  the shared-access migration, where a company row belongs to one user.
\<close>

definition svc_getCompany ::
  "backend \<Rightarrow> string \<Rightarrow> string \<Rightarrow> world \<Rightarrow> (error + company_row) \<times> world" where
  "svc_getCompany b companyId userId w =
    (case company_of_user b (JStr companyId) userId w of
       (None, w1) \<Rightarrow> (Inl (ApiError 404 ''Company not found''), w1)
     | (Some c, w1) \<Rightarrow> (Inr c, w1))"

definition svc_createCompany ::
  "backend \<Rightarrow> company_body \<Rightarrow> string \<Rightarrow> world \<Rightarrow> (error + company_row) \<times> world" where
  "svc_createCompany b body userId w =
    (let (ok, w1) = attempt b (Companies_insert body (Some userId)) w
     in case (if ok \<and> \<not> shared_access w1
              then (case (column_text (b_name body), column_text (b_cuit body),
                          column_text (b_address body), column_text (b_industry body)) of
                      (Some n, Some c, Some a, Some i) \<Rightarrow>
                        Some \<lparr>c_id = gen_id b (next_id w1), c_name = n, c_cuit = c, c_address = a,
                              c_industry = i, c_user_id = Some userId\<rparr>
                    | _ \<Rightarrow> None)
              else None) of
          None \<Rightarrow> (Inl (ApiBackendError 400), w1)
        | Some data \<Rightarrow>
            (Inr data, w1\<lparr>companies := companies w1 @ [data], next_id := Suc (next_id w1)\<rparr>))"

definition svc_deleteCompany ::
  "backend \<Rightarrow> string \<Rightarrow> string \<Rightarrow> world \<Rightarrow> (error + bool) \<times> world" where
  "svc_deleteCompany b companyId userId w =
    (case svc_getCompany b companyId userId w of
       (Inl e, w1) \<Rightarrow> (Inl e, w1)
     | (Inr c, w1) \<Rightarrow>
         let (ok, w2) = attempt b (Companies_delete companyId userId) w1;
             kept = filter (\<lambda>c. \<not> (c_id c = companyId \<and> c_user_id c = Some userId)) (companies w2);
             left = filter (\<lambda>r. rp_company_id r \<in> set (map c_id kept)) (reports w2)
         in if \<not> ok \<or> shared_access w2 then (Inl (ApiBackendError 400), w2)
            else (Inr True, w2\<lparr>companies := kept, reports := left,
                     observations := filter (\<lambda>x. o_report_id x \<in> set (map rp_id left)) (observations w2)\<rparr>))"

section \<open>The writes on observations, in the order they are made\<close>

datatype obs_write = Update_row | Insert_rows | Delete_row

fun write_of :: "call \<Rightarrow> obs_write option" where
  "write_of (Observations_update obsId reportId p) = Some Update_row"
| "write_of (Observations_insert items) = Some Insert_rows"
| "write_of (Observations_delete obsId reportId) = Some Delete_row"
| "write_of c = None"

fun writes :: "call list \<Rightarrow> obs_write list" where
  "writes [] = []"
| "writes (c # cs) = (case write_of c of None \<Rightarrow> writes cs | Some k \<Rightarrow> k # writes cs)"

text \<open>
  The branch an entry takes, by the test \<^verbatim>\<open>obs.id && existingObsMap[obs.id]\<close> of both
  \<^verbatim>\<open>updateReport\<close> functions.
\<close>

definition entry_write :: "(string \<Rightarrow> member) \<Rightarrow> entry \<Rightarrow> obs_write" where
  "entry_write obsMap obs =
    (if truthy (e_id obs) \<and> obsMap (to_string (e_id obs)) \<noteq> Absent then Update_row else Insert_rows)"

section \<open>Example data\<close>

text \<open>
  A backend on which no call fails. Its image store is at \<^verbatim>\<open>https://store/\<close>, and a
  string that does not begin so is not read as a URL.
\<close>

definition steady :: backend where
  "steady = \<lparr>fails = (\<lambda>n c. False), gen_id = (\<lambda>n. ''id-'' @ digits n),
     public_url = (\<lambda>n. ''https://store/report-images/u1/img-'' @ digits n @ ''.png''),
     now = (\<lambda>n. 1700000000000),
     parse_observations = (\<lambda>s. if s = ''[]'' then Some [] else None),
     parse_ids = (\<lambda>s. if s = ''[]'' then Some [] else None),
     storage_path = (\<lambda>u. Some (drop 28 u)),
     url_pathname = (\<lambda>u. if take 14 u = ''https://store/'' then Some (drop 13 u) else None)\<rparr>"

definition acme :: company_row where
  "acme = \<lparr>c_id = ''c1'', c_name = ''Acme'', c_cuit = ''30-1'', c_address = ''Main St 1'',
     c_industry = ''Mining'', c_user_id = None\<rparr>"

text \<open>After the shared-access migration: one company, and user u1 associated with it.\<close>

definition shared_world :: world where
  "shared_world = \<lparr>shared_access = True, companies = [acme],
     user_companies = [(''u1'', ''c1'')], reports = [], observations = [], next_id = 0, oplog = [],
     temp_files = []\<rparr>"

text \<open>A second registration of the same tax id, under another name.\<close>

definition second_body :: company_body where
  "second_body = \<lparr>b_name = JStr ''Other name'', b_cuit = JStr ''30-1'',
     b_address = JStr ''Elsewhere 2'', b_industry = JStr ''Retail''\<rparr>"

text \<open>A backend on which every removal from the image store fails, and nothing else.\<close>

definition no_removal :: backend where
  "no_removal = steady\<lparr>fails := (\<lambda>n c. case c of Storage_remove paths \<Rightarrow> True | _ \<Rightarrow> False)\<rparr>"

definition rep1 :: report_row where
  "rep1 = \<lparr>rp_id = ''r1'', rp_company_id = ''c1'', rp_user_id = ''u1'', rp_date = ''2025-05-27'',
     rp_contact = None, rp_description = ''Quarterly inspection'', rp_verification = None,
     rp_recommendations = None, rp_signature = None, rp_visit_confirmation = False,
     rp_status = ''draft''\<rparr>"

definition obs1 :: obs_row where
  "obs1 = \<lparr>o_id = ''o1'', o_report_id = ''r1'', o_observation = ''Loose cable'',
     o_risk_level = ''high'', o_image_url = Some ''https://store/report-images/u1/a.png''\<rparr>"

definition obs2 :: obs_row where
  "obs2 = \<lparr>o_id = ''o2'', o_report_id = ''r1'', o_observation = ''Wet floor'',
     o_risk_level = ''low'', o_image_url = None\<rparr>"

text \<open>One report of user u1 with two observations, the first with an image.\<close>

definition report_world :: world where
  "report_world = \<lparr>shared_access = True, companies = [acme], user_companies = [(''u1'', ''c1'')],
     reports = [rep1], observations = [obs1, obs2], next_id = 0, oplog = [],
     temp_files = []\<rparr>"

text \<open>A request body with no field, and an edit entry with no field.\<close>

definition no_body :: report_body where
  "no_body = \<lparr>rb_companyId = JUndefined, rb_date = JUndefined, rb_contact = JUndefined,
     rb_description = JUndefined, rb_verification = JUndefined, rb_recommendations = JUndefined,
     rb_signature = JUndefined, rb_visitConfirmation = JUndefined, rb_status = JUndefined,
     rb_observations = Missing, rb_observationsToDelete = Missing\<rparr>"

definition no_entry :: entry where
  "no_entry = \<lparr>e_id = JUndefined, e_observation = JUndefined, e_riskLevel = JUndefined,
     e_imageUrl = JUndefined, e_newImage = JUndefined, e_tempId = JUndefined\<rparr>"

text \<open>Before the shared-access migration: the company belongs to user u1.\<close>

definition legacy_world :: world where
  "legacy_world = \<lparr>shared_access = False, companies = [acme\<lparr>c_user_id := Some ''u1''\<rparr>],
     user_companies = [], reports = [], observations = [], next_id = 0, oplog = [],
     temp_files = []\<rparr>"

definition create_body :: report_body where
  "create_body = no_body\<lparr>rb_companyId := JStr ''c1'', rb_date := JStr ''2025-05-27'',
     rb_description := JStr ''Quarterly inspection'', rb_visitConfirmation := JStr ''true''\<rparr>"

text \<open>An entry that echoes the first observation with a new text and no image field.\<close>

definition edit_o1 :: entry where
  "edit_o1 = no_entry\<lparr>e_id := JStr ''o1'', e_observation := JStr ''Loose cable, fixed''\<rparr>"

text \<open>A new entry without a temporary id.\<close>

definition fresh_entry :: entry where
  "fresh_entry = no_entry\<lparr>e_observation := JStr ''Blocked exit''\<rparr>"

text \<open>The lookup of the two stored observations.\<close>

definition stored_map :: "string \<Rightarrow> member" where
  "stored_map = existingObsMap (Some [obs1, obs2])"

text \<open>One edit of a stored observation, one new entry, and one deletion.\<close>

definition mixed_body :: report_body where
  "mixed_body = no_body\<lparr>rb_observations := JsArray [edit_o1, fresh_entry],
     rb_observationsToDelete := JsArray [JStr ''o2'']\<rparr>"

text \<open>The deletion ids name the observation that an entry edits.\<close>

definition overlap_body :: report_body where
  "overlap_body = no_body\<lparr>rb_observations := JsArray [edit_o1],
     rb_observationsToDelete := JsArray [JStr ''o1'']\<rparr>"

text \<open>Deletion ids, and an empty list of entries.\<close>

definition deletion_only_body :: report_body where
  "deletion_only_body = no_body\<lparr>rb_observations := JsArray [],
     rb_observationsToDelete := JsArray [JStr ''o1'']\<rparr>"

text \<open>An entry whose id is no stored observation, but a name every object inherits.\<close>

definition inherited_body :: report_body where
  "inherited_body = no_body\<lparr>rb_observations :=
     JsArray [no_entry\<lparr>e_id := JStr ''constructor'', e_observation := JStr ''Blocked exit''\<rparr>]\<rparr>"

text \<open>A file uploaded in the field the route accepts.\<close>

definition photo_a :: upload_file where
  "photo_a = \<lparr>f_fieldname = ''images'', f_path = ''uploads/a1'', f_originalname = ''exit.png''\<rparr>"

text \<open>A new entry with a temporary id, and the file uploaded for it.\<close>

definition tagged_entry :: entry where
  "tagged_entry = no_entry\<lparr>e_observation := JStr ''Blocked exit'', e_tempId := JStr ''t7''\<rparr>"

definition photo_t7 :: upload_file where
  "photo_t7 = \<lparr>f_fieldname = ''image_new_t7'', f_path = ''uploads/c3'',
     f_originalname = ''door.png''\<rparr>"

text \<open>A file named after a reading of the clock.\<close>

definition photo_clock :: upload_file where
  "photo_clock = \<lparr>f_fieldname = ''image_new_1700000000000'', f_path = ''uploads/b2'',
     f_originalname = ''stairs.png''\<rparr>"

text \<open>A second new entry without a temporary id.\<close>

definition second_fresh_entry :: entry where
  "second_fresh_entry = no_entry\<lparr>e_observation := JStr ''Broken stairs''\<rparr>"

text \<open>A new entry that names its image by a relative path.\<close>

definition linked_entry :: entry where
  "linked_entry = no_entry\<lparr>e_observation := JStr ''Blocked exit'', e_imageUrl := JStr ''photo.png''\<rparr>"

definition linked_body :: report_body where
  "linked_body = no_body\<lparr>rb_observations := JsArray [linked_entry]\<rparr>"

section \<open>Evaluation and frame lemmas\<close>

lemma digits_0: "digits 0 = ''0''"
  by (simp add: digits.simps)

lemma digits_small: "n < 10 \<Longrightarrow> digits n = [''0123456789'' ! n]"
  by (simp add: digits.simps)

lemma digits_clock: "digits 1700000000000 = ''1700000000000''"
  by (simp add: digits.simps)

lemma attempt_simps [simp]:
  "fst (attempt b c w) = (\<not> fails b (length (oplog w)) c)"
  "snd (attempt b c w) = w\<lparr>oplog := oplog w @ [c]\<rparr>"
  by (simp_all add: attempt_def)

lemma single_filter_unique:
  "single (filter P xs) = Some r \<Longrightarrow> x \<in> set xs \<Longrightarrow> P x \<Longrightarrow> x = r"
proof -
  assume a: "single (filter P xs) = Some r" and x: "x \<in> set xs" "P x"
  from a have "filter P xs = [r]"
    by (auto simp: single_def split: list.splits)
  moreover from x have "x \<in> set (filter P xs)" by simp
  ultimately show "x = r" by simp
qed

lemma single_Some_mem: "single xs = Some r \<Longrightarrow> r \<in> set xs"
  by (auto simp: single_def split: list.splits)

lemma uploadImage_frame:
  "uploadImage b name userId w = (res, w') \<Longrightarrow>
     reports w' = reports w \<and> observations w' = observations w \<and> next_id w' = next_id w
     \<and> temp_files w' = temp_files w"
  by (auto simp: uploadImage_def attempt_def split: if_splits)

lemma uploadImage_log:
  "oplog (snd (uploadImage b name userId w)) = oplog w @ [Storage_upload userId name]"
  by (simp add: uploadImage_def attempt_def)

lemma send_file_frame:
  "reports (snd (send_file b f userId w)) = reports w
   \<and> observations (snd (send_file b f userId w)) = observations w
   \<and> next_id (snd (send_file b f userId w)) = next_id w
   \<and> temp_files (snd (send_file b f userId w)) = temp_files w"
  by (cases "uploadImage b (f_originalname f) userId w")
     (auto simp: send_file_def split: sum.splits dest: uploadImage_frame)

lemma send_file_log:
  "\<exists>cs. oplog (snd (send_file b f userId w)) = oplog w @ cs \<and> (\<forall>c \<in> set cs. \<exists>u n. c = Storage_upload u n)"
  using uploadImage_log [of b "f_originalname f" userId w]
  by (cases "uploadImage b (f_originalname f) userId w")
     (auto simp: send_file_def split: sum.splits)

lemma ctl_end_frame:
  "reports (snd (ctl_end p w)) = reports w
   \<and> observations (snd (ctl_end p w)) = observations w
   \<and> next_id (snd (ctl_end p w)) = next_id w
   \<and> oplog (snd (ctl_end p w)) = oplog w"
  by (cases p) (simp_all add: ctl_end_def)

lemma ctl_end_all_frame:
  "reports (snd (ctl_end_all ps w)) = reports w
   \<and> observations (snd (ctl_end_all ps w)) = observations w
   \<and> next_id (snd (ctl_end_all ps w)) = next_id w
   \<and> oplog (snd (ctl_end_all ps w)) = oplog w"
proof (induction ps arbitrary: w)
  case Nil
  then show ?case by simp
next
  case (Cons p ps)
  from Cons.IH [of "snd (ctl_end p w)"] ctl_end_frame [of p w]
  show ?case
    by (simp add: split_def Let_def split: sum.splits)
qed

lemma create_begin_all_frame:
  "reports (snd (create_begin_all b reportId files userId index entries w)) = reports w
   \<and> observations (snd (create_begin_all b reportId files userId index entries w)) = observations w
   \<and> next_id (snd (create_begin_all b reportId files userId index entries w)) = next_id w"
proof (induction entries arbitrary: index w)
  case Nil
  then show ?case by simp
next
  case (Cons obs rest)
  show ?case
  proof (cases "index < length files")
    case True
    from Cons.IH [of "Suc index" "snd (send_file b (files ! index) userId w)"]
      send_file_frame [of b "files ! index" userId w]
    show ?thesis
      using True by (simp add: split_def Let_def split: option.splits)
  next
    case False
    from Cons.IH [of "Suc index" w] show ?thesis
      using False by (simp add: split_def Let_def)
  qed
qed

lemma insert_observations_reports:
  "insert_observations b items w = (ok, w') \<Longrightarrow> reports w' = reports w"
  by (auto simp: insert_observations_def attempt_def split: option.splits if_splits)

lemma insert_report_Some:
  "insert_report b n w = (Some r, w') \<Longrightarrow>
     r \<in> set (reports w') \<and> rp_visit_confirmation r = nr_visit_confirmation n
     \<and> rp_user_id r = nr_user_id n"
  by (auto simp: insert_report_def attempt_def row_of_report_def split: option.splits if_splits)

lemma getReport_Inr:
  "getReport b reportId userId w = (Inr (r, obs), w') \<Longrightarrow>
     single (filter (\<lambda>r. rp_id r = reportId \<and> rp_user_id r = userId) (reports w)) = Some r
     \<and> reports w' = reports w \<and> observations w' = observations w"
  by (auto simp: getReport_def attempt_def split: option.splits if_splits)

lemma newReport_flag:
  "nr_visit_confirmation (newReport body userId) =
     (rb_visitConfirmation body = JStr ''true'' \<or> rb_visitConfirmation body = JBool True)"
  by (simp add: newReport_def)

lemma catch_files_Inr:
  "catch_files files r = (Inr x, w') \<Longrightarrow> r = (Inr x, w')"
  by (cases r) (auto simp: catch_files_def split: sum.splits)

lemma create_begin_all_reports:
  "create_begin_all b reportId files userId index entries w = (ps, w') \<Longrightarrow> reports w' = reports w"
  using create_begin_all_frame [of b reportId files userId index entries w] by simp

lemma ctl_end_all_reports:
  "ctl_end_all ps w = (res, w') \<Longrightarrow> reports w' = reports w"
  using ctl_end_all_frame [of ps w] by simp

lemma ctl_createReport_row:
  assumes "ctl_createReport b body files userId w = (Inr (r, items), w')"
  shows "r \<in> set (reports w') \<and> rp_visit_confirmation r = nr_visit_confirmation (newReport body userId)"
  using catch_files_Inr [OF assms [unfolded ctl_createReport_def]]
  by (auto simp: Let_def split: option.splits if_splits prod.splits sum.splits
      dest!: insert_report_Some create_begin_all_reports ctl_end_all_reports insert_observations_reports)

section \<open>Claims on companies\<close>

text \<open>
  Claim C8. \<^verbatim>\<open>DELETE /api/companies/:id\<close> is served by \<open>ctl_removeCompanyAssociation\<close>:
  for every backend, company id, user and state, the table of companies (and of reports) is
  left as it was; the call fails exactly when the one delete on \<^verbatim>\<open>user_companies\<close> fails,
  and then nothing changes; otherwise exactly the association of the acting user with that
  company is removed, and every other association stays.
\<close>

theorem removeCompanyAssociation_keeps_company:
  "companies (snd (ctl_removeCompanyAssociation b companyId userId w)) = companies w
   \<and> reports (snd (ctl_removeCompanyAssociation b companyId userId w)) = reports w
   \<and> (isl (fst (ctl_removeCompanyAssociation b companyId userId w)) \<longleftrightarrow>
        fails b (length (oplog w)) (User_companies_delete companyId userId) \<or> \<not> shared_access w)
   \<and> user_companies (snd (ctl_removeCompanyAssociation b companyId userId w)) =
        (if isl (fst (ctl_removeCompanyAssociation b companyId userId w)) then user_companies w
         else filter (\<lambda>a. a \<noteq> (userId, companyId)) (user_companies w))"
  by (auto simp: ctl_removeCompanyAssociation_def attempt_def Let_def split_def intro!: filter_cong)

text \<open>With two users associated with the company, only the acting user's association goes.\<close>

theorem removeCompanyAssociation_keeps_company_witness:
  "companies (snd (ctl_removeCompanyAssociation steady ''c1'' ''u1''
      (shared_world\<lparr>user_companies := [(''u1'', ''c1''), (''u2'', ''c1'')]\<rparr>))) = [acme]
   \<and> user_companies (snd (ctl_removeCompanyAssociation steady ''c1'' ''u1''
      (shared_world\<lparr>user_companies := [(''u1'', ''c1''), (''u2'', ''c1'')]\<rparr>))) = [(''u2'', ''c1'')]"
  using removeCompanyAssociation_keeps_company
    [of steady "''c1''" "''u1''" "shared_world\<lparr>user_companies := [(''u1'', ''c1''), (''u2'', ''c1'')]\<rparr>"]
  by (simp add: steady_def shared_world_def)

text \<open>
  Claim C7 fails on the code. The handler is written to create a company or to associate
  the user with the existing one, but whenever a company with the tax id of the request
  is stored, the request ends with status 400 and neither the companies nor the
  associations change. A user who is not yet associated with that company cannot read it:
  the lookup finds nothing, the handler inserts, and the unique constraint on
  \<^verbatim>\<open>cuit\<close> refuses the insert. A user who is associated finds the company, and the
  primary key of \<^verbatim>\<open>user_companies\<close> refuses the second association. (A request with
  a field missing is refused before any call, with the same status.)
\<close>

theorem createCompany_existing_cuit:
  assumes "c \<in> set (companies w)" and "c_cuit c = to_string (b_cuit body)"
  shows "(fst (ctl_createCompany b body userId w) = Inl (ApiBackendError 400)
          \<or> fst (ctl_createCompany b body userId w) =
              Inl (ApiError 400 ''Name, CUIT, address, and industry are required''))
    \<and> companies (snd (ctl_createCompany b body userId w)) = companies w
    \<and> user_companies (snd (ctl_createCompany b body userId w)) = user_companies w"
proof (cases "truthy (b_name body) \<and> truthy (b_cuit body) \<and> truthy (b_address body)
    \<and> truthy (b_industry body)")
  case False
  then show ?thesis
    by (auto simp: ctl_createCompany_def)
next
  case True
  let ?cuit = "to_string (b_cuit body)"
  let ?w1 = "w\<lparr>oplog := oplog w @ [Companies_select_cuit ?cuit]\<rparr>"
  from assms have taken: "?cuit \<in> set (map c_cuit (companies w))" by force
  show ?thesis
  proof (cases "single (filter (\<lambda>c. c_cuit c = ?cuit) (readable_companies userId ?w1))")
    case None
    with True taken show ?thesis
      by (simp add: ctl_createCompany_def attempt_def Let_def)
  next
    case (Some x)
    from single_Some_mem [OF Some] have "x \<in> set (readable_companies userId ?w1)" by simp
    then have "shared_access w \<longrightarrow> (userId, c_id x) \<in> set (user_companies w)"
      by (auto simp: readable_companies_def split: if_splits)
    with True Some show ?thesis
      by (simp add: ctl_createCompany_def attempt_def Let_def)
  qed
qed

text \<open>
  Acme is stored, and user u1 is associated with it. User u2, who is not, registers the
  tax id of Acme under another name: the lookup finds no company, an insert is sent and
  refused, and u2 gains no association. User u1 sends the same request: the association
  is sent a second time and refused.
\<close>

theorem createCompany_existing_cuit_witness:
  "fst (ctl_createCompany steady second_body ''u2'' shared_world) = Inl (ApiBackendError 400)
   \<and> companies (snd (ctl_createCompany steady second_body ''u2'' shared_world)) = [acme]
   \<and> user_companies (snd (ctl_createCompany steady second_body ''u2'' shared_world)) = [(''u1'', ''c1'')]
   \<and> oplog (snd (ctl_createCompany steady second_body ''u2'' shared_world)) =
       [Companies_select_cuit ''30-1'', Companies_insert second_body None]
   \<and> fst (ctl_createCompany steady second_body ''u1'' shared_world) = Inl (ApiBackendError 400)
   \<and> user_companies (snd (ctl_createCompany steady second_body ''u1'' shared_world)) = [(''u1'', ''c1'')]
   \<and> oplog (snd (ctl_createCompany steady second_body ''u1'' shared_world)) =
       [Companies_select_cuit ''30-1'', User_companies_insert ''u1'' ''c1'']"
proof -
  have m: "acme \<in> set (companies shared_world)" "c_cuit acme = to_string (b_cuit second_body)"
    by (simp_all add: shared_world_def acme_def second_body_def)
  have l2: "oplog (snd (ctl_createCompany steady second_body ''u2'' shared_world)) =
       [Companies_select_cuit ''30-1'', Companies_insert second_body None]"
    by (simp add: ctl_createCompany_def readable_companies_def attempt_def single_def steady_def
        shared_world_def second_body_def acme_def Let_def)
  have l1: "oplog (snd (ctl_createCompany steady second_body ''u1'' shared_world)) =
       [Companies_select_cuit ''30-1'', User_companies_insert ''u1'' ''c1'']"
    by (simp add: ctl_createCompany_def readable_companies_def attempt_def single_def steady_def
        shared_world_def second_body_def acme_def Let_def)
  have f2: "fst (ctl_createCompany steady second_body ''u2'' shared_world) = Inl (ApiBackendError 400)"
    by (simp add: ctl_createCompany_def readable_companies_def attempt_def single_def steady_def
        shared_world_def second_body_def acme_def Let_def)
  have f1: "fst (ctl_createCompany steady second_body ''u1'' shared_world) = Inl (ApiBackendError 400)"
    by (simp add: ctl_createCompany_def readable_companies_def attempt_def single_def steady_def
        shared_world_def second_body_def acme_def Let_def)
  have c: "companies shared_world = [acme]" "user_companies shared_world = [(''u1'', ''c1'')]"
    by (simp_all add: shared_world_def)
  from createCompany_existing_cuit [of acme shared_world second_body steady "''u2''", OF m]
    createCompany_existing_cuit [of acme shared_world second_body steady "''u1''", OF m]
  show ?thesis
    by (simp add: l1 l2 f1 f2 c)
qed

text \<open>
  The functions of services/companyService.js, on the schema they are written for: a
  second company with a tax id already stored is inserted as a further row, and
  \<^verbatim>\<open>deleteCompany\<close> deletes the row of the company. After the shared-access migration
  both end with an error and change nothing.
\<close>

lemma svc_createCompany_inserts:
  "fst (svc_createCompany steady second_body ''u1'' legacy_world) =
     Inr \<lparr>c_id = ''id-0'', c_name = ''Other name'', c_cuit = ''30-1'', c_address = ''Elsewhere 2'',
           c_industry = ''Retail'', c_user_id = Some ''u1''\<rparr>
   \<and> map c_cuit (companies (snd (svc_createCompany steady second_body ''u1'' legacy_world))) =
       [''30-1'', ''30-1'']
   \<and> fst (svc_createCompany steady second_body ''u1'' shared_world) = Inl (ApiBackendError 400)
   \<and> companies (snd (svc_createCompany steady second_body ''u1'' shared_world)) = [acme]"
  by (simp add: svc_createCompany_def attempt_def steady_def legacy_world_def shared_world_def
      second_body_def acme_def digits_0 Let_def)

lemma svc_deleteCompany_deletes_row:
  "fst (svc_deleteCompany steady ''c1'' ''u1'' legacy_world) = Inr True
   \<and> companies (snd (svc_deleteCompany steady ''c1'' ''u1'' legacy_world)) = []
   \<and> fst (svc_deleteCompany steady ''c1'' ''u1'' shared_world) = Inl (ApiError 404 ''Company not found'')
   \<and> companies (snd (svc_deleteCompany steady ''c1'' ''u1'' shared_world)) = [acme]"
  by (simp add: svc_deleteCompany_def svc_getCompany_def company_of_user_def attempt_def single_def
      steady_def legacy_world_def shared_world_def acme_def Let_def del: set_filter)


section \<open>Claim on the visit confirmation\<close>

text \<open>
  Claim C10. The flag \<^verbatim>\<open>visit_confirmation\<close> of \<^verbatim>\<open>newReport\<close> (the same object
  literal in \<^verbatim>\<open>createReport\<close> of the controller and of the service) is true exactly
  when the submitted \<^verbatim>\<open>visitConfirmation\<close> is the string \<^verbatim>\<open>'true'\<close> or the boolean
  \<^verbatim>\<open>true\<close>; and whenever \<^verbatim>\<open>createReport\<close>, the handler of the route, returns a
  report, that report is a row of the table and carries that flag.
\<close>

theorem createReport_visit_confirmation:
  "(nr_visit_confirmation (newReport body userId) \<longleftrightarrow>
      rb_visitConfirmation body = JStr ''true'' \<or> rb_visitConfirmation body = JBool True)
   \<and> (\<forall>r items w'. ctl_createReport b body files userId w = (Inr (r, items), w') \<longrightarrow>
        r \<in> set (reports w') \<and>
        (rp_visit_confirmation r \<longleftrightarrow>
           rb_visitConfirmation body = JStr ''true'' \<or> rb_visitConfirmation body = JBool True))"
  using ctl_createReport_row [of b body files userId w]
  by (simp add: newReport_flag)

lemma ctl_create_example:
  "v \<noteq> JUndefined \<Longrightarrow> \<exists>r items w'.
     ctl_createReport steady (create_body\<lparr>rb_visitConfirmation := v\<rparr>) [] ''u1'' legacy_world =
       (Inr (r, items), w')"
  by (simp add: ctl_createReport_def catch_files_def company_of_user_def insert_report_def
      row_of_report_def newReport_def attempt_def single_def steady_def legacy_world_def
      create_body_def no_body_def acme_def statuses_def js_or_def digits_0 Let_def)

text \<open>
  On the schema before the migration, the company of user u1: the string
  \<^verbatim>\<open>'true'\<close> and the boolean \<^verbatim>\<open>true\<close> give a report with the flag set, the strings
  \<^verbatim>\<open>'True'\<close> and \<^verbatim>\<open>'1'\<close> a report with the flag not set.
\<close>

theorem createReport_visit_confirmation_witness:
  "map_sum id (\<lambda>(r, items). rp_visit_confirmation r)
     (fst (ctl_createReport steady (create_body\<lparr>rb_visitConfirmation := JStr ''true''\<rparr>) [] ''u1'' legacy_world)) = Inr True
   \<and> map_sum id (\<lambda>(r, items). rp_visit_confirmation r)
     (fst (ctl_createReport steady (create_body\<lparr>rb_visitConfirmation := JStr ''True''\<rparr>) [] ''u1'' legacy_world)) = Inr False
   \<and> map_sum id (\<lambda>(r, items). rp_visit_confirmation r)
     (fst (ctl_createReport steady (create_body\<lparr>rb_visitConfirmation := JBool True\<rparr>) [] ''u1'' legacy_world)) = Inr True
   \<and> map_sum id (\<lambda>(r, items). rp_visit_confirmation r)
     (fst (ctl_createReport steady (create_body\<lparr>rb_visitConfirmation := JStr ''1''\<rparr>) [] ''u1'' legacy_world)) = Inr False"
proof -
  obtain r1 i1 w1 where e1:
    "ctl_createReport steady (create_body\<lparr>rb_visitConfirmation := JStr ''true''\<rparr>) [] ''u1'' legacy_world = (Inr (r1, i1), w1)"
    using ctl_create_example [of "JStr ''true''"] by auto
  obtain r2 i2 w2 where e2:
    "ctl_createReport steady (create_body\<lparr>rb_visitConfirmation := JStr ''True''\<rparr>) [] ''u1'' legacy_world = (Inr (r2, i2), w2)"
    using ctl_create_example [of "JStr ''True''"] by auto
  obtain r3 i3 w3 where e3:
    "ctl_createReport steady (create_body\<lparr>rb_visitConfirmation := JBool True\<rparr>) [] ''u1'' legacy_world = (Inr (r3, i3), w3)"
    using ctl_create_example [of "JBool True"] by auto
  obtain r4 i4 w4 where e4:
    "ctl_createReport steady (create_body\<lparr>rb_visitConfirmation := JStr ''1''\<rparr>) [] ''u1'' legacy_world = (Inr (r4, i4), w4)"
    using ctl_create_example [of "JStr ''1''"] by auto
  have "rp_visit_confirmation r1"
    using createReport_visit_confirmation
      [of "create_body\<lparr>rb_visitConfirmation := JStr ''true''\<rparr>" "''u1''" steady "[]" legacy_world] e1
    by simp
  moreover have "\<not> rp_visit_confirmation r2"
    using createReport_visit_confirmation
      [of "create_body\<lparr>rb_visitConfirmation := JStr ''True''\<rparr>" "''u1''" steady "[]" legacy_world] e2
    by simp
  moreover have "rp_visit_confirmation r3"
    using createReport_visit_confirmation
      [of "create_body\<lparr>rb_visitConfirmation := JBool True\<rparr>" "''u1''" steady "[]" legacy_world] e3
    by simp
  moreover have "\<not> rp_visit_confirmation r4"
    using createReport_visit_confirmation
      [of "create_body\<lparr>rb_visitConfirmation := JStr ''1''\<rparr>" "''u1''" steady "[]" legacy_world] e4
    by simp
  ultimately show ?thesis
    by (simp add: e1 e2 e3 e4)
qed

section \<open>Claim on failed image cleanup\<close>

lemma deleteImage_frame:
  "reports (snd (deleteImage b u w)) = reports w \<and> observations (snd (deleteImage b u w)) = observations w"
  by (simp add: deleteImage_def attempt_def split: option.splits)

lemma delete_images_frame:
  "reports (delete_images b obs w) = reports w \<and> observations (delete_images b obs w) = observations w"
  by (induction obs arbitrary: w) (simp_all add: deleteImage_frame)

lemma delete_observation_rows:
  "observations (snd (delete_observation b k reportId w)) =
     (if fails b (length (oplog w)) (Observations_delete k reportId) then observations w
      else filter (\<lambda>r. \<not> (o_id r = k \<and> o_report_id r = reportId)) (observations w))"
  by (simp add: delete_observation_def attempt_def)

lemma svc_deletion_rows:
  assumes "obsMap (to_string obsId) \<noteq> Absent"
    and "\<forall>n. \<not> fails b n (Observations_delete (to_string obsId) reportId)"
  shows "observations (svc_deletion b reportId obsMap obsId w) =
     filter (\<lambda>r. \<not> (o_id r = to_string obsId \<and> o_report_id r = reportId)) (observations w)"
  using assms by (simp add: svc_deletion_def delete_observation_rows deleteImage_frame Let_def)

text \<open>
  \<^verbatim>\<open>deleteReport\<close> of the service, which no route reaches, catches every failure of a
  removal inside \<^verbatim>\<open>deleteImage\<close>: when \<open>getReport\<close> finds the report and the delete on
  \<^verbatim>\<open>reports\<close> goes through, it returns \<^verbatim>\<open>true\<close> and the report and its observations
  are gone, whatever the image store does and whatever the stored URLs are. Likewise the
  deletion of one observation in \<^verbatim>\<open>updateReport\<close> of the service.
\<close>

lemma svc_deleteReport_survives_failed_cleanup:
  assumes "getReport b reportId userId w = (Inr (report, obs), w1)"
    and "\<not> fails b (length (oplog w1)) (Reports_delete reportId userId)"
  shows "fst (svc_deleteReport b reportId userId w) = Inr True
    \<and> (\<forall>r \<in> set (reports (snd (svc_deleteReport b reportId userId w))).
          \<not> (rp_id r = reportId \<and> rp_user_id r = userId))
    \<and> (\<forall>x \<in> set (observations (snd (svc_deleteReport b reportId userId w))).
          o_report_id x \<noteq> reportId)
    \<and> (\<forall>obsMap obsId v.
          obsMap (to_string obsId) \<noteq> Absent \<and>
          (\<forall>n. \<not> fails b n (Observations_delete (to_string obsId) reportId)) \<longrightarrow>
          (\<forall>x \<in> set (observations (svc_deletion b reportId obsMap obsId v)).
             \<not> (o_id x = to_string obsId \<and> o_report_id x = reportId)))"
proof -
  from getReport_Inr [OF assms(1)] have
    s: "single (filter (\<lambda>r. rp_id r = reportId \<and> rp_user_id r = userId) (reports w)) = Some report"
    and f: "reports w1 = reports w" by simp_all
  from single_Some_mem [OF s] have m: "report \<in> set (reports w1)" "rp_id report = reportId"
    "rp_user_id report = userId" using f by auto
  have d: "delete_report b reportId userId w1 =
    (True, w1\<lparr>oplog := oplog w1 @ [Reports_delete reportId userId],
        reports := filter (\<lambda>r. \<not> (rp_id r = reportId \<and> rp_user_id r = userId)) (reports w1),
        observations := filter (\<lambda>x. o_report_id x \<notin>
           set (map rp_id (filter (\<lambda>r. rp_id r = reportId \<and> rp_user_id r = userId) (reports w1))))
           (observations w1)\<rparr>)"
    using assms(2) by (simp add: delete_report_def attempt_def Let_def)
  have e: "svc_deleteReport b reportId userId w =
    (Inr True, delete_images b obs (snd (delete_report b reportId userId w1)))"
    using assms(1) d by (simp add: svc_deleteReport_def)
  have i: "reportId \<in> set (map rp_id (filter (\<lambda>r. rp_id r = reportId \<and> rp_user_id r = userId) (reports w1)))"
    using m by force
  have o: "\<forall>obsMap obsId v.
          obsMap (to_string obsId) \<noteq> Absent \<and>
          (\<forall>n. \<not> fails b n (Observations_delete (to_string obsId) reportId)) \<longrightarrow>
          (\<forall>x \<in> set (observations (svc_deletion b reportId obsMap obsId v)).
             \<not> (o_id x = to_string obsId \<and> o_report_id x = reportId))"
    by (simp add: svc_deletion_rows)
  show ?thesis
    using i o by (auto simp: e d delete_images_frame)
qed

text \<open>
  The handler of the route, when its first query finds the report and the delete on
  \<^verbatim>\<open>reports\<close> goes through: the report is gone afterwards, and the handler ends with an
  exception exactly when the select on \<^verbatim>\<open>observations\<close> returned a row whose image URL
  \<^verbatim>\<open>new URL\<close> does not accept; whether the removal from the image store fails has no
  part in it.
\<close>

lemma ctl_deleteReport_outcome:
  assumes "getReport b reportId userId w = (Inr existingReport, w1)"
    and "\<not> fails b (Suc (length (oplog w1))) (Reports_delete reportId userId)"
  shows "(\<forall>r \<in> set (reports (snd (ctl_deleteReport b reportId userId w))).
            \<not> (rp_id r = reportId \<and> rp_user_id r = userId))
    \<and> fst (ctl_deleteReport b reportId userId w) =
        (if \<exists>rows. fst (select_observations b reportId w1) = Some rows \<and> imagePaths b rows = None
         then Inl Exception else Inr ())"
  using assms
  by (auto simp: ctl_deleteReport_def select_observations_def delete_report_def attempt_def Let_def
      split: option.splits)

text \<open>
  Every removal from the image store fails: the handler sends one removal, of the last
  segment of the path of the image of o1, does not look at its result, and ends with
  success; the report and both observations are gone.
\<close>

lemma ctl_deleteReport_ignores_failed_removal:
  "ctl_deleteReport no_removal ''r1'' ''u1'' report_world =
     (Inr (), report_world\<lparr>reports := [], observations := [],
        oplog := [Reports_select ''r1'' ''u1'', Observations_select ''r1'', Reports_delete ''r1'' ''u1'',
                  Storage_remove [''a.png'']]\<rparr>)"
  "fails no_removal 3 (Storage_remove [''a.png''])"
  by (simp_all add: ctl_deleteReport_def getReport_def select_observations_def delete_report_def
      last_segment_def attempt_def single_def no_removal_def steady_def report_world_def rep1_def
      obs1_def obs2_def Let_def del: set_filter)

text \<open>
  Claim C9 fails on the code. An update stores the image URL of a new entry as the client
  sent it, here the relative path \<^verbatim>\<open>photo.png\<close>. When the report is deleted afterwards,
  the handler deletes the report and its observations, and then builds the paths of the
  images to remove: \<^verbatim>\<open>new URL('photo.png')\<close> throws, the request ends with that
  exception instead of the message of success, and no removal is sent to the image store.
\<close>

theorem deleteReport_fails_after_deletion:
  "fst (put_report steady ''r1'' linked_body [] ''u1'' report_world) =
     Inr (rep1, [obs1, obs2,
       \<lparr>o_id = ''id-0'', o_report_id = ''r1'', o_observation = ''Blocked exit'',
        o_risk_level = ''low'', o_image_url = Some ''photo.png''\<rparr>])
   \<and> fst (ctl_deleteReport steady ''r1'' ''u1''
       (snd (put_report steady ''r1'' linked_body [] ''u1'' report_world))) = Inl Exception
   \<and> reports (snd (ctl_deleteReport steady ''r1'' ''u1''
       (snd (put_report steady ''r1'' linked_body [] ''u1'' report_world)))) = []
   \<and> observations (snd (ctl_deleteReport steady ''r1'' ''u1''
       (snd (put_report steady ''r1'' linked_body [] ''u1'' report_world)))) = []
   \<and> drop 5 (oplog (snd (ctl_deleteReport steady ''r1'' ''u1''
       (snd (put_report steady ''r1'' linked_body [] ''u1'' report_world))))) =
     [Reports_select ''r1'' ''u1'', Observations_select ''r1'', Reports_delete ''r1'' ''u1'']"
proof -
  have p: "put_report steady ''r1'' linked_body [] ''u1'' report_world =
     (Inr (rep1, [obs1, obs2,
        \<lparr>o_id = ''id-0'', o_report_id = ''r1'', o_observation = ''Blocked exit'',
         o_risk_level = ''low'', o_image_url = Some ''photo.png''\<rparr>]),
      report_world\<lparr>observations := [obs1, obs2,
        \<lparr>o_id = ''id-0'', o_report_id = ''r1'', o_observation = ''Blocked exit'',
         o_risk_level = ''low'', o_image_url = Some ''photo.png''\<rparr>],
        next_id := 1,
        oplog := [Reports_select ''r1'' ''u1'', Reports_update ''r1'' ''u1'' no_updates,
          Observations_select ''r1'',
          Observations_insert [\<lparr>n_id = JUndefined, n_report_id = JStr ''r1'',
            n_observation = JStr ''Blocked exit'', n_risk_level = JStr ''low'',
            n_image_url = JStr ''photo.png''\<rparr>],
          Reports_select_id ''r1'']\<rparr>)"
    by (simp add: put_report_def upload_array_def ctl_updateReport_def catch_files_def
        ctl_observations_def ctl_entries_def ctl_begin_def ctl_end_def finalReport_def getReport_def
        update_report_def update_row_def select_observations_def insert_observations_def
        row_of_object_def attempt_def single_def existingObsMap_def Object_prototype_keys_def
        updates_of_def no_updates_def required_text_def nullable_text_def js_or_def risk_levels_def
        statuses_def steady_def report_world_def rep1_def obs1_def obs2_def linked_body_def
        linked_entry_def no_body_def no_entry_def digits_0 Let_def del: set_filter)
  show ?thesis
    unfolding p
    by (simp add: ctl_deleteReport_def getReport_def select_observations_def delete_report_def
        attempt_def single_def steady_def report_world_def rep1_def obs1_def obs2_def Let_def
        del: set_filter)
qed

section \<open>Claim on kept images\<close>

lemma column_text_js_of_column [simp]: "column_text (js_of_column u) = u"
  by (cases u) simp_all

lemma js_of_column_defined [simp]: "js_of_column u \<noteq> JUndefined"
  by (cases u) simp_all

lemma those_Some_nth:
  "those xs = Some ys \<Longrightarrow> length ys = length xs \<and> (\<forall>i < length xs. xs ! i = Some (ys ! i))"
proof (induction xs arbitrary: ys)
  case Nil
  then show ?case by simp
next
  case (Cons x xs)
  then obtain y zs where x: "x = Some y" and zs: "those xs = Some zs" and ys: "ys = y # zs"
    by (auto split: option.splits)
  from Cons.IH [OF zs] show ?case
    by (auto simp: x ys nth_Cons split: nat.splits)
qed

lemma patch_row_image:
  "patch_row p r = Some r' \<Longrightarrow> p_image_url p = js_of_column u \<Longrightarrow>
     o_image_url r' = u \<and> o_id r' = o_id r \<and> o_report_id r' = o_report_id r"
  by (auto simp: patch_row_def Let_def split: option.splits if_splits)

lemma update_observation_log:
  "oplog (snd (update_observation b k reportId p w)) = oplog w @ [Observations_update k reportId p]"
  by (simp add: update_observation_def attempt_def split: option.splits)

lemma update_observation_image:
  assumes "p_image_url p = js_of_column u"
    and "r' \<in> set (observations (snd (update_observation b k reportId p w)))"
  shows "r' \<in> set (observations w) \<or> (o_id r' = k \<and> o_report_id r' = reportId \<and> o_image_url r' = u)"
proof (cases "fst (update_observation b k reportId p w)")
  case False
  then have "observations (snd (update_observation b k reportId p w)) = observations w"
    by (auto simp: update_observation_def attempt_def split: option.splits if_splits)
  with assms(2) show ?thesis by simp
next
  case True
  let ?rows = "map (\<lambda>r. if o_id r = k \<and> o_report_id r = reportId then patch_row p r else Some r)
                  (observations w)"
  from True obtain rs where t: "those ?rows = Some rs"
    and o: "observations (snd (update_observation b k reportId p w)) = rs"
    by (auto simp: update_observation_def attempt_def split: option.splits if_splits)
  from assms(2) o obtain i where i: "i < length rs" "rs ! i = r'"
    by (auto simp: in_set_conv_nth)
  from those_Some_nth [OF t] i have n: "i < length (observations w)"
    "?rows ! i = Some r'" by auto
  let ?r = "observations w ! i"
  from n have m: "?r \<in> set (observations w)" by simp
  show ?thesis
  proof (cases "o_id ?r = k \<and> o_report_id ?r = reportId")
    case True
    with n have "patch_row p ?r = Some r'" by simp
    from patch_row_image [OF this assms(1)] True show ?thesis by simp
  next
    case False
    with n have "r' = ?r" by auto
    with m show ?thesis by simp
  qed
qed

text \<open>
  Claim C2. An entry with an id that the lookup holds as a stored row, with no new-image
  signal and no image URL: the service makes, for this entry, exactly one call, the update
  of that id with \<^verbatim>\<open>image_url\<close> set to the stored URL; the handler builds for it an
  object with that id and the stored URL, with no call at all, and its update loop sends
  that URL. After either update every row of the table is as it was before, or is the row
  of that id and holds the stored URL.
\<close>

theorem update_keeps_stored_image:
  assumes "truthy (e_id obs)"
    and "obsMap (to_string (e_id obs)) = Own row"
    and "\<not> truthy (e_newImage obs)"
    and "\<not> truthy (e_imageUrl obs)"
  shows "(\<exists>p. svc_entry b reportId files userId obsMap obs w =
            (Inr (), snd (update_observation b (to_string (e_id obs)) reportId p w))
          \<and> p_image_url p = js_of_column (o_image_url row))
    \<and> (\<forall>r \<in> set (observations (snd (svc_entry b reportId files userId obsMap obs w))).
          r \<in> set (observations w) \<or>
          (o_id r = to_string (e_id obs) \<and> o_image_url r = o_image_url row))
    \<and> (\<exists>item. ctl_entry b reportId files userId obsMap obs w = (Inr item, w)
          \<and> n_id item = e_id obs \<and> n_image_url item = js_of_column (o_image_url row)
          \<and> (\<forall>r \<in> set (observations (snd (ctl_updates b reportId [item] w))).
                r \<in> set (observations w) \<or>
                (o_id r = to_string (e_id obs) \<and> o_image_url r = o_image_url row)))"
proof -
  let ?k = "to_string (e_id obs)"
  let ?p = "\<lparr>p_observation = js_or (e_observation obs) (JStr (o_observation row)),
             p_risk_level = js_or (e_riskLevel obs) (JStr (o_risk_level row)),
             p_image_url = js_of_column (o_image_url row)\<rparr>"
  have s: "svc_entry b reportId files userId obsMap obs w =
      (Inr (), snd (update_observation b ?k reportId ?p w))"
    using assms by (simp add: svc_entry_def js_or_def Let_def)
  have a: "\<exists>p. svc_entry b reportId files userId obsMap obs w =
            (Inr (), snd (update_observation b ?k reportId p w))
          \<and> p_image_url p = js_of_column (o_image_url row)"
    using s by (intro exI [of _ ?p]) simp
  have u: "\<And>r. r \<in> set (observations (snd (update_observation b ?k reportId ?p w))) \<Longrightarrow>
      r \<in> set (observations w) \<or> (o_id r = ?k \<and> o_image_url r = o_image_url row)"
    using update_observation_image [of ?p "o_image_url row" _ b ?k reportId w] by auto
  let ?item = "\<lparr>n_id = e_id obs, n_report_id = JUndefined,
                n_observation = js_or (e_observation obs) (JStr (o_observation row)),
                n_risk_level = js_or (e_riskLevel obs) (JStr (o_risk_level row)),
                n_image_url = js_of_column (o_image_url row)\<rparr>"
  have c: "ctl_entry b reportId files userId obsMap obs w = (Inr ?item, w)"
    using assms by (simp add: ctl_entry_def ctl_begin_def ctl_end_def js_or_def Let_def)
  have l: "snd (ctl_updates b reportId [?item] w) = snd (update_observation b ?k reportId ?p w)"
    by (cases "update_observation b ?k reportId ?p w") (auto split: bool.splits)
  show ?thesis
    using a u c l s by auto
qed


text \<open>
  The entry echoes observation o1, which has an image, with a new text only: the object
  of the handler carries the stored URL, and after the update of the service both rows
  hold the image they held.
\<close>

theorem update_keeps_stored_image_witness:
  "map_sum id n_image_url (fst (ctl_entry steady ''r1'' [] ''u1'' stored_map edit_o1 report_world)) =
     Inr (JStr ''https://store/report-images/u1/a.png'')
   \<and> map o_image_url (observations (snd (svc_entry steady ''r1'' [] ''u1'' stored_map edit_o1 report_world))) =
     [Some ''https://store/report-images/u1/a.png'', None]
   \<and> map o_observation (observations (snd (svc_entry steady ''r1'' [] ''u1'' stored_map edit_o1 report_world))) =
     [''Loose cable, fixed'', ''Wet floor'']"
proof -
  have h1: "truthy (e_id edit_o1)"
    by (simp add: edit_o1_def no_entry_def)
  have h2: "stored_map (to_string (e_id edit_o1)) = Own obs1"
    by (simp add: stored_map_def existingObsMap_def edit_o1_def no_entry_def obs1_def obs2_def)
  have h3: "\<not> truthy (e_newImage edit_o1)"
    by (simp add: edit_o1_def no_entry_def)
  have h4: "\<not> truthy (e_imageUrl edit_o1)"
    by (simp add: edit_o1_def no_entry_def)
  from update_keeps_stored_image [where obs = edit_o1 and obsMap = stored_map and row = obs1
      and b = steady and reportId = "''r1''" and files = "[]" and userId = "''u1''"
      and w = report_world, OF h1 h2 h3 h4]
  obtain item p where
    c: "ctl_entry steady ''r1'' [] ''u1'' stored_map edit_o1 report_world = (Inr item, report_world)"
      "n_image_url item = js_of_column (o_image_url obs1)" and
    s: "svc_entry steady ''r1'' [] ''u1'' stored_map edit_o1 report_world =
          (Inr (), snd (update_observation steady (to_string (e_id edit_o1)) ''r1'' p report_world))"
    by blast
  have a: "map_sum id n_image_url (fst (ctl_entry steady ''r1'' [] ''u1'' stored_map edit_o1 report_world)) =
     Inr (JStr ''https://store/report-images/u1/a.png'')"
    using c by (simp add: obs1_def)
  have e: "observations (snd (svc_entry steady ''r1'' [] ''u1'' stored_map edit_o1 report_world)) =
     [obs1\<lparr>o_observation := ''Loose cable, fixed''\<rparr>, obs2]"
    using h2 by (simp add: svc_entry_def update_observation_def patch_row_def attempt_def js_or_def
        risk_levels_def edit_o1_def no_entry_def steady_def report_world_def obs1_def obs2_def Let_def)
  show ?thesis
    using a by (simp add: e obs1_def obs2_def)
qed


section \<open>The calls of one update\<close>

lemma writes_append: "writes (xs @ ys) = writes xs @ writes ys"
  by (induction xs) (simp_all split: option.splits)

lemma insert_observations_log:
  "oplog (snd (insert_observations b items w)) = oplog w @ [Observations_insert items]"
  by (simp add: insert_observations_def attempt_def split: option.splits)

lemma delete_observation_log:
  "oplog (snd (delete_observation b k reportId w)) = oplog w @ [Observations_delete k reportId]"
  by (simp add: delete_observation_def attempt_def)

lemma deleteImage_log:
  "\<exists>cs. oplog (snd (deleteImage b u w)) = oplog w @ cs \<and> writes cs = []"
  by (simp add: deleteImage_def attempt_def split: option.splits)

lemma svc_entry_writes:
  assumes "svc_entry b reportId files userId obsMap obs w = (Inr u, w')"
  shows "\<exists>cs. oplog w' = oplog w @ cs \<and> writes cs = [entry_write obsMap obs]"
proof (cases "truthy (e_id obs) \<and> obsMap (to_string (e_id obs)) \<noteq> Absent")
  case True
  with assms obtain url w1 where
    w': "w' = snd (update_observation b (to_string (e_id obs)) reportId
           \<lparr>p_observation = js_or (e_observation obs) (member_observation (obsMap (to_string (e_id obs)))),
            p_risk_level = js_or (e_riskLevel obs) (member_risk_level (obsMap (to_string (e_id obs)))),
            p_image_url = url\<rparr> w1)"
    and w1: "w1 = w \<or> (\<exists>name. w1 = snd (uploadImage b name userId w))"
    by (auto simp: svc_entry_def Let_def split: if_splits sum.splits prod.splits option.splits)
       (metis snd_conv)+
  from w1 obtain cs where "oplog w1 = oplog w @ cs" "writes cs = []"
    by (auto simp: uploadImage_log)
  with w' True show ?thesis
    by (simp add: update_observation_log entry_write_def writes_append)
next
  case False
  with assms obtain url w1 where
    w': "w' = snd (insert_observations b
           [\<lparr>n_id = JUndefined, n_report_id = JStr reportId, n_observation = e_observation obs,
             n_risk_level = js_or (e_riskLevel obs) (JStr ''low''), n_image_url = url\<rparr>] w1)"
    and w1: "w1 = w \<or> (\<exists>name. w1 = snd (uploadImage b name userId w))"
    by (auto simp: svc_entry_def Let_def split: if_splits sum.splits prod.splits option.splits)
       (metis snd_conv)+
  from w1 obtain cs where "oplog w1 = oplog w @ cs" "writes cs = []"
    by (auto simp: uploadImage_log)
  with w' False show ?thesis
    by (simp add: insert_observations_log entry_write_def writes_append)
qed






lemma ctl_begin_item:
  "fst (ctl_begin b reportId files userId obsMap obs w) = Returned item
     \<or> fst (ctl_begin b reportId files userId obsMap obs w) = Uploaded path item \<Longrightarrow>
   truthy (n_id item) = (entry_write obsMap obs = Update_row)"
  by (auto simp: ctl_begin_def entry_write_def Let_def split_def split: option.splits if_splits)


lemma ctl_end_item:
  "ctl_end p w = (Inr item, w') \<Longrightarrow> p = Returned item \<or> (\<exists>path. p = Uploaded path item)"
  by (cases p) (auto simp: ctl_end_def split: if_splits)




section \<open>Claim on the order of the writes\<close>

lemmas handler_defs =
  svc_updateReport_def svc_observations_def svc_entry_def svc_deletion_def
  put_report_def upload_array_def ctl_updateReport_def catch_files_def ctl_observations_def
  ctl_entries_def ctl_entry_def ctl_begin_def ctl_end_def send_file_def new_image_field_def
  finalReport_def getReport_def update_report_def update_row_def select_observations_def
  update_observation_def patch_row_def insert_observations_def row_of_object_def
  delete_observation_def deleteImage_def uploadImage_def attempt_def single_def
  existingObsMap_def Object_prototype_keys_def updates_of_def no_updates_def
  required_text_def nullable_text_def js_or_def risk_levels_def statuses_def

lemmas example_defs =
  steady_def report_world_def rep1_def obs1_def obs2_def acme_def no_body_def no_entry_def
  edit_o1_def fresh_entry_def mixed_body_def overlap_body_def deletion_only_body_def
  inherited_body_def photo_a_def tagged_entry_def photo_t7_def









section \<open>Claims on deletion ids\<close>

lemma svc_deletion_subset:
  "set (observations (svc_deletion b reportId obsMap obsId w)) \<subseteq> set (observations w)"
  by (auto simp: svc_deletion_def delete_observation_rows deleteImage_frame Let_def)

lemma svc_deletions_subset:
  "set (observations (svc_deletions b reportId obsMap ids w)) \<subseteq> set (observations w)"
proof (induction ids arbitrary: w)
  case Nil
  then show ?case by simp
next
  case (Cons i rest)
  from Cons.IH [of "svc_deletion b reportId obsMap i w"]
    svc_deletion_subset [of b reportId obsMap i w]
  show ?case by auto
qed

lemma svc_deletions_removes:
  assumes "i \<in> set ids"
    and "obsMap (to_string i) \<noteq> Absent"
    and "\<forall>n. \<not> fails b n (Observations_delete (to_string i) reportId)"
    and "x \<in> set (observations (svc_deletions b reportId obsMap ids w))"
  shows "\<not> (o_id x = to_string i \<and> o_report_id x = reportId)"
  using assms
proof (induction ids arbitrary: w)
  case Nil
  then show ?case by simp
next
  case (Cons j rest)
  show ?case
  proof (cases "i \<in> set rest")
    case True
    with Cons show ?thesis by auto
  next
    case False
    with Cons.prems have j: "j = i" by simp
    from Cons.prems(4) svc_deletions_subset [of b reportId obsMap rest "svc_deletion b reportId obsMap j w"]
    have "x \<in> set (observations (svc_deletion b reportId obsMap i w))"
      using j by auto
    with svc_deletion_rows [where obsMap = obsMap and obsId = i and b = b and reportId = reportId
        and w = w, OF Cons.prems(2,3)]
    show ?thesis by simp
  qed
qed

lemma svc_observations_Inr:
  assumes "svc_observations b reportId body files userId w = (Inr u, w')"
  shows "\<exists>es ds u2 w2.
      parsed (parse_observations b) (rb_observations body) = Some es
    \<and> (if provided (rb_observationsToDelete body)
        then parsed (parse_ids b) (rb_observationsToDelete body) else Some []) = Some ds
    \<and> svc_entries b reportId files userId (existingObsMap (fst (select_observations b reportId w))) es
          (snd (select_observations b reportId w)) = (Inr u2, w2)
    \<and> w' = svc_deletions b reportId (existingObsMap (fst (select_observations b reportId w))) ds w2"
proof -
  let ?m = "existingObsMap (fst (select_observations b reportId w))"
  let ?w1 = "snd (select_observations b reportId w)"
  from assms obtain es where
    es: "parsed (parse_observations b) (rb_observations body) = Some es"
    by (auto simp: svc_observations_def split: option.splits)
  obtain r2 w2 where en0: "svc_entries b reportId files userId ?m es ?w1 = (r2, w2)"
    by (cases "svc_entries b reportId files userId ?m es ?w1")
  from assms es en0 obtain u2 where r2: "r2 = Inr u2"
    by (cases r2) (auto simp: svc_observations_def split_def)
  from en0 r2 have en: "svc_entries b reportId files userId ?m es ?w1 = (Inr u2, w2)" by simp
  from assms es en obtain ds where
    ds: "(if provided (rb_observationsToDelete body)
          then parsed (parse_ids b) (rb_observationsToDelete body) else Some []) = Some ds" and
    w': "w' = svc_deletions b reportId ?m ds w2"
    by (cases "provided (rb_observationsToDelete body)";
        cases "parsed (parse_ids b) (rb_observationsToDelete body)")
       (auto simp: svc_observations_def split_def)
  from es ds en w' show ?thesis by blast
qed

text \<open>
  The deletion ids of a call whose block of observations ends without an exception: the
  row of every deletion id that the lookup holds is gone afterwards, when its delete goes
  through.
\<close>

lemma deletion_ids_removed:
  assumes "svc_observations b reportId body files userId w = (Inr u, w')"
    and "provided (rb_observationsToDelete body)"
    and "parsed (parse_ids b) (rb_observationsToDelete body) = Some ids"
    and "i \<in> set ids"
    and "existingObsMap (fst (select_observations b reportId w)) (to_string i) \<noteq> Absent"
    and "\<forall>n. \<not> fails b n (Observations_delete (to_string i) reportId)"
    and "x \<in> set (observations w')"
  shows "\<not> (o_id x = to_string i \<and> o_report_id x = reportId)"
proof -
  from svc_observations_Inr [OF assms(1)] assms(2,3) obtain w2 where
    "w' = svc_deletions b reportId (existingObsMap (fst (select_observations b reportId w))) ids w2"
    by auto
  with svc_deletions_removes [where obsMap = "existingObsMap (fst (select_observations b reportId w))"
      and i = i and ids = ids and b = b and reportId = reportId, OF assms(4,5,6)] assms(7)
  show ?thesis by blast
qed

text \<open>
  The calls of one deletion: the removal of the image of that very row, when it has one
  and its URL can be read, and then the delete of the row.
\<close>

lemma svc_deletion_calls:
  assumes "obsMap (to_string obsId) = Own row"
  shows "oplog (svc_deletion b reportId obsMap obsId w) =
     oplog w @
     (case o_image_url row of
        None \<Rightarrow> []
      | Some url \<Rightarrow> if url = [] then []
                    else (case storage_path b url of None \<Rightarrow> [] | Some path \<Rightarrow> [Storage_remove [path]])) @
     [Observations_delete (to_string obsId) reportId]"
  using assms
  by (simp add: svc_deletion_def deleteImage_def delete_observation_def attempt_def Let_def
      split: option.splits)

section \<open>Claim on an id that is both edited and deleted\<close>




section \<open>Claim on deletion ids with no entry\<close>

text \<open>
  Claim C3 fails on the code. The service handles the deletion ids inside the block
  \<^verbatim>\<open>if (observations && observations.length > 0)\<close>: with the deletion id o1 and an
  empty array of entries nothing is written, and o1 is still in the report returned, while
  the same request with the entries sent as the text \<^verbatim>\<open>'[]'\<close> deletes o1. The handler
  of the route does not read the deletion ids: o2 stays.
\<close>

theorem deletion_ids_skipped:
  "fst (svc_updateReport steady ''r1'' deletion_only_body [] ''u1'' report_world) = Inr (rep1, [obs1, obs2])
   \<and> writes (oplog (snd (svc_updateReport steady ''r1'' deletion_only_body [] ''u1'' report_world))) = []
   \<and> fst (svc_updateReport steady ''r1'' (deletion_only_body\<lparr>rb_observations := JsonText ''[]''\<rparr>) []
           ''u1'' report_world) = Inr (rep1, [obs2])
   \<and> map o_id (observations (snd (ctl_updateReport steady ''r1'' mixed_body [] ''u1'' report_world))) =
       [''o1'', ''o2'', ''id-0'']
   \<and> writes (oplog (snd (ctl_updateReport steady ''r1'' mixed_body [] ''u1'' report_world))) =
       [Update_row, Insert_rows]"
  by (simp add: handler_defs example_defs digits_0 Let_def del: set_filter)

section \<open>Claim on entries with an unknown id\<close>

text \<open>
  An entry that takes the second branch (no id, or an id for which the lookup reads
  nothing) is written by one insert and by no update, in the service; in the handler its
  object has no id, so that it is among the rows inserted.
\<close>

lemma unknown_id_is_insert:
  assumes "\<not> truthy (e_id obs) \<or> obsMap (to_string (e_id obs)) = Absent"
  shows "entry_write obsMap obs = Insert_rows"
    and "svc_entry b reportId files userId obsMap obs w = (Inr u, w') \<Longrightarrow>
           \<exists>cs. oplog w' = oplog w @ cs \<and> writes cs = [Insert_rows]"
    and "ctl_entry b reportId files userId obsMap obs w = (Inr item, w') \<Longrightarrow> \<not> truthy (n_id item)"
proof -
  show k: "entry_write obsMap obs = Insert_rows"
    using assms by (auto simp: entry_write_def)
  show "svc_entry b reportId files userId obsMap obs w = (Inr u, w') \<Longrightarrow>
           \<exists>cs. oplog w' = oplog w @ cs \<and> writes cs = [Insert_rows]"
    using svc_entry_writes [of b reportId files userId obsMap obs w u w'] k by simp
  show "\<not> truthy (n_id item)" if c: "ctl_entry b reportId files userId obsMap obs w = (Inr item, w')"
  proof -
    from c have "ctl_end (fst (ctl_begin b reportId files userId obsMap obs w))
        (snd (ctl_begin b reportId files userId obsMap obs w)) = (Inr item, w')"
      by (simp add: ctl_entry_def split_def Let_def)
    from ctl_end_item [OF this] ctl_begin_item [of b reportId files userId obsMap obs w item] k
    show ?thesis by auto
  qed
qed

text \<open>
  Claim C1 fails on the code. The lookup is a plain object, so an id that is the name of
  a member of \<^verbatim>\<open>Object.prototype\<close> reads a truthy value without being the id of any
  stored observation. The entry with the id \<^verbatim>\<open>constructor\<close> takes the branch of the
  existing observations: an update of no row is made, no row is inserted, and the report
  returned has the two observations it had.
\<close>

theorem inherited_id_is_not_inserted:
  "''constructor'' \<notin> set (map o_id (observations report_world))
   \<and> stored_map ''constructor'' = Inherited
   \<and> fst (svc_updateReport steady ''r1'' inherited_body [] ''u1'' report_world) = Inr (rep1, [obs1, obs2])
   \<and> writes (oplog (snd (svc_updateReport steady ''r1'' inherited_body [] ''u1'' report_world))) =
       [Update_row]
   \<and> fst (ctl_updateReport steady ''r1'' inherited_body [] ''u1'' report_world) = Inr (rep1, [obs1, obs2])
   \<and> writes (oplog (snd (ctl_updateReport steady ''r1'' inherited_body [] ''u1'' report_world))) =
       [Update_row]"
  by (simp add: handler_defs example_defs stored_map_def digits_0 Let_def del: set_filter)

section \<open>Claim on the image of a new entry\<close>

text \<open>
  A file in the field \<^verbatim>\<open>images\<close>, the one field the route accepts, has none of the
  names the handler looks for: with such files the entries are processed as with no file
  at all. Nothing is uploaded and no file is unlinked.
\<close>

lemma route_files_are_not_paired:
  assumes "list_all (\<lambda>f. f_fieldname f = ''images'') files"
  shows "ctl_begin b reportId files userId obsMap obs w = ctl_begin b reportId [] userId obsMap obs w"
    and "ctl_begin_all b reportId files userId obsMap entries w =
           ctl_begin_all b reportId [] userId obsMap entries w"
    and "ctl_observations b reportId files userId entries w = ctl_observations b reportId [] userId entries w"
proof -
  have n: "\<And>x. find (\<lambda>f. f_fieldname f = ''image_'' @ x) files = None"
    using assms by (auto simp: find_None_iff list_all_iff)
  have m: "\<And>v e. find (\<lambda>f. f_fieldname f = new_image_field b v e) files = None"
    using assms by (auto simp: find_None_iff list_all_iff new_image_field_def)
  have k: "\<And>m e v. ctl_begin b reportId files userId m e v = ctl_begin b reportId [] userId m e v"
    unfolding ctl_begin_def n m by (simp add: Let_def)
  have a: "\<And>m v. ctl_begin_all b reportId files userId m entries v =
           ctl_begin_all b reportId [] userId m entries v"
  proof -
    fix m v
    show "ctl_begin_all b reportId files userId m entries v =
           ctl_begin_all b reportId [] userId m entries v"
      by (induction entries arbitrary: v) (simp_all add: k)
  qed
  from k show "ctl_begin b reportId files userId obsMap obs w = ctl_begin b reportId [] userId obsMap obs w" .
  from a show "ctl_begin_all b reportId files userId obsMap entries w =
           ctl_begin_all b reportId [] userId obsMap entries w" .
  from a show "ctl_observations b reportId files userId entries w =
      ctl_observations b reportId [] userId entries w"
    by (simp add: ctl_observations_def ctl_entries_def)
qed






text \<open>
  The handler alone, given files with the names it looks for (the route lets no such file
  through). The file named after the temporary id t7 is read, uploaded and unlinked, and
  the object of the entry carries the URL of the upload. Two new entries without a
  temporary id, processed at one reading of the clock, find the same file: it is uploaded
  twice, the second callback cannot unlink it, and the handler ends with that exception.
\<close>

lemma named_files_at_the_handler:
  "ctl_entries steady ''r1'' [photo_t7] ''u1'' stored_map [tagged_entry]
      (report_world\<lparr>temp_files := [''uploads/c3'']\<rparr>) =
     (Inr [\<lparr>n_id = JUndefined, n_report_id = JStr ''r1'', n_observation = JStr ''Blocked exit'',
            n_risk_level = JStr ''low'',
            n_image_url = JStr ''https://store/report-images/u1/img-0.png''\<rparr>],
      report_world\<lparr>oplog := [Storage_upload ''u1'' ''door.png''], temp_files := []\<rparr>)"
  "ctl_entries steady ''r1'' [photo_clock] ''u1'' stored_map [fresh_entry, second_fresh_entry]
      (report_world\<lparr>temp_files := [''uploads/b2'']\<rparr>) =
     (Inl Exception,
      report_world\<lparr>oplog := [Storage_upload ''u1'' ''stairs.png'', Storage_upload ''u1'' ''stairs.png''],
        temp_files := []\<rparr>)"
  by (simp_all add: handler_defs example_defs photo_clock_def second_fresh_entry_def stored_map_def
      digits_small digits_clock Let_def del: set_filter)

end
